theory Spec2Isabelle
  imports Main "HOL-Library.Multiset"
begin

section \<open>Data model of \<open>App.tsx\<close>\<close>

text \<open>
  The object literals of \<open>handleAddNote\<close> and \<open>handleAddTag\<close> give the two record shapes.
  JavaScript strings are modelled as \<open>string\<close>, a value of type \<open>string | null\<close> as
  \<open>string option\<close>. The fields \<open>id\<close> and \<open>tags\<close> of a note and \<open>id\<close> and \<open>name\<close> of a tag carry
  a suffix, since \<open>id\<close> is a constant of HOL and \<open>tags\<close> is also a field of the component state.
\<close>

record Note =
  id_n :: string
  title :: string
  content :: string
  tags_n :: "string list"
  createdAt :: string
  updatedAt :: string

record Tag =
  id_t :: string
  name_t :: string

text \<open>The eight \<open>useState\<close> cells of the component, in the order of lines 11 to 18.\<close>

record app_state =
  "notes" :: "Note list"
  tags :: "Tag list"
  activeNoteId :: "string option"
  activeTagId :: "string option"
  searchTerm :: string
  isSidebarOpen :: bool
  isInitialized :: bool
  isAskGeminiModalOpen :: bool

definition initial_state :: app_state where
  "initial_state =
     \<lparr>notes = [], tags = [], activeNoteId = None, activeTagId = None, searchTerm = [],
      isSidebarOpen = False, isInitialized = False, isAskGeminiModalOpen = False\<rparr>"

text \<open>
  JavaScript truthiness of a \<open>string | null\<close>: \<open>null\<close> and the empty string are falsy, every
  other string is truthy. It decides \<open>activeTagId ? \<dots> : \<dots>\<close>, \<open>activeTagId && \<dots>\<close>,
  \<open>searchTerm && \<dots>\<close> and \<open>if (storedNotes)\<close>.
\<close>

fun truthy :: "string option \<Rightarrow> bool" where
  "truthy None = False"
| "truthy (Some s) = (s \<noteq> [])"

section \<open>The handlers\<close>

text \<open>
  \<open>handleAddNote\<close> (lines 57 to 68). The result of \<open>crypto.randomUUID()\<close> and the results of
  the two successive \<open>new Date().toISOString()\<close> calls come from the environment, so they
  are arguments: \<open>uuid\<close>, then the clock text read for \<open>createdAt\<close>, then the clock text read for
  \<open>updatedAt\<close>.
\<close>

definition newNote :: "string \<Rightarrow> string \<Rightarrow> string \<Rightarrow> string option \<Rightarrow> Note" where
  "newNote uuid now1 now2 a =
     \<lparr>id_n = uuid, title = [], content = [],
      tags_n = (if truthy a then [the a] else []),
      createdAt = now1, updatedAt = now2\<rparr>"

definition handleAddNote :: "string \<Rightarrow> string \<Rightarrow> string \<Rightarrow> app_state \<Rightarrow> app_state" where
  "handleAddNote uuid now1 now2 s =
     (let n = newNote uuid now1 now2 (activeTagId s)
      in s\<lparr>notes := n # notes s, activeNoteId := Some (id_n n)\<rparr>)"

text \<open>\<open>handleSaveNote\<close> (lines 70 to 72): \<open>prev.map(n => n.id === updatedNote.id ? updatedNote : n)\<close>.\<close>

definition handleSaveNote :: "Note \<Rightarrow> app_state \<Rightarrow> app_state" where
  "handleSaveNote updatedNote s =
     s\<lparr>notes := map (\<lambda>n. if id_n n = id_n updatedNote then updatedNote else n) (notes s)\<rparr>"

text \<open>\<open>handleDeleteNote\<close> (lines 74 to 79).\<close>

definition handleDeleteNote :: "string \<Rightarrow> app_state \<Rightarrow> app_state" where
  "handleDeleteNote noteId s =
     (let s' = s\<lparr>notes := filter (\<lambda>n. id_n n \<noteq> noteId) (notes s)\<rparr>
      in if activeNoteId s = Some noteId then s'\<lparr>activeNoteId := None\<rparr> else s')"

text \<open>
  \<open>handleAddTag\<close> (lines 81 to 85) updates the state and returns the new tag, so the model
  returns the pair.
\<close>

definition handleAddTag :: "string \<Rightarrow> string \<Rightarrow> app_state \<Rightarrow> Tag \<times> app_state" where
  "handleAddTag uuid tagName s =
     (let newTag = \<lparr>id_t = uuid, name_t = tagName\<rparr>
      in (newTag, s\<lparr>tags := tags s @ [newTag]\<rparr>))"

text \<open>\<open>handleSelectTag\<close> (lines 103 to 106).\<close>

definition handleSelectTag :: "string option \<Rightarrow> app_state \<Rightarrow> app_state" where
  "handleSelectTag tagId s = s\<lparr>activeTagId := tagId, isSidebarOpen := False\<rparr>"

text \<open>
  Everything the rendered tree can do to the state: the five handlers and the state setters
  that are passed to the child components (lines 123 to 155).
\<close>

datatype event =
    AddNote string string string
  | SaveNote Note
  | DeleteNote string
  | AddTag string string
  | SelectTag "string option"
  | SelectNote "string option"
  | SearchChange string
  | SetSidebarOpen bool
  | SetAskGeminiModalOpen bool

fun step :: "app_state \<Rightarrow> event \<Rightarrow> app_state" where
  "step s (AddNote uuid now1 now2) = handleAddNote uuid now1 now2 s"
| "step s (SaveNote updatedNote) = handleSaveNote updatedNote s"
| "step s (DeleteNote noteId) = handleDeleteNote noteId s"
| "step s (AddTag uuid tagName) = snd (handleAddTag uuid tagName s)"
| "step s (SelectTag tagId) = handleSelectTag tagId s"
| "step s (SelectNote noteId) = s\<lparr>activeNoteId := noteId\<rparr>"
| "step s (SearchChange q) = s\<lparr>searchTerm := q\<rparr>"
| "step s (SetSidebarOpen b) = s\<lparr>isSidebarOpen := b\<rparr>"
| "step s (SetAskGeminiModalOpen b) = s\<lparr>isAskGeminiModalOpen := b\<rparr>"

fun run :: "app_state \<Rightarrow> event list \<Rightarrow> app_state" where
  "run s [] = s"
| "run s (e # es) = run (step s e) es"

text \<open>
  The assumption on \<open>crypto.randomUUID()\<close>: along a run, the identifier handed to each
  \<open>handleAddNote\<close> is not the identifier of a note already in the collection.
\<close>

fun fresh_ids :: "app_state \<Rightarrow> event list \<Rightarrow> bool" where
  "fresh_ids s [] = True"
| "fresh_ids s (AddNote uuid now1 now2 # es) =
     (uuid \<notin> set (map id_n (notes s)) \<and> fresh_ids (handleAddNote uuid now1 now2 s) es)"
| "fresh_ids s (e # es) = fresh_ids (step s e) es"

section \<open>The filtered and sorted view\<close>

text \<open>
  \<open>String.prototype.toLowerCase\<close> on the code units below 256: the letters \<open>A\<close> to \<open>Z\<close> and
  the Latin-1 capitals \<open>0xC0\<close> to \<open>0xDE\<close> (all but the multiplication sign \<open>0xD7\<close>) go to the
  code unit 32 above; every other code unit is left as it is.
\<close>

definition lower_char :: "char \<Rightarrow> char" where
  "lower_char c =
     (case map_of
        (zip (''ABCDEFGHIJKLMNOPQRSTUVWXYZ'' @
         [CHR 0xC0, CHR 0xC1, CHR 0xC2, CHR 0xC3, CHR 0xC4, CHR 0xC5, CHR 0xC6, CHR 0xC7,
          CHR 0xC8, CHR 0xC9, CHR 0xCA, CHR 0xCB, CHR 0xCC, CHR 0xCD, CHR 0xCE, CHR 0xCF,
          CHR 0xD0, CHR 0xD1, CHR 0xD2, CHR 0xD3, CHR 0xD4, CHR 0xD5, CHR 0xD6, CHR 0xD8,
          CHR 0xD9, CHR 0xDA, CHR 0xDB, CHR 0xDC, CHR 0xDD, CHR 0xDE])
          (''abcdefghijklmnopqrstuvwxyz'' @
         [CHR 0xE0, CHR 0xE1, CHR 0xE2, CHR 0xE3, CHR 0xE4, CHR 0xE5, CHR 0xE6, CHR 0xE7,
          CHR 0xE8, CHR 0xE9, CHR 0xEA, CHR 0xEB, CHR 0xEC, CHR 0xED, CHR 0xEE, CHR 0xEF,
          CHR 0xF0, CHR 0xF1, CHR 0xF2, CHR 0xF3, CHR 0xF4, CHR 0xF5, CHR 0xF6, CHR 0xF8,
          CHR 0xF9, CHR 0xFA, CHR 0xFB, CHR 0xFC, CHR 0xFD, CHR 0xFE])) c of
        Some d \<Rightarrow> d
      | None \<Rightarrow> c)"

definition toLowerCase :: "string \<Rightarrow> string" where
  "toLowerCase s = map lower_char s"

text \<open>
  \<open>String.prototype.includes\<close>: \<open>includes_str t q\<close> is \<open>t.includes(q)\<close>, true when \<open>q\<close> occurs
  in \<open>t\<close> at some position, tried from the left.
\<close>

fun includes_str :: "string \<Rightarrow> string \<Rightarrow> bool" where
  "includes_str [] q = (q = [])"
| "includes_str (c # cs) q = (take (length q) (c # cs) = q \<or> includes_str cs q)"

text \<open>
  The callback of \<open>filter\<close> (lines 89 to 97), with its two early \<open>return false\<close>.
  \<open>note.tags.includes(activeTagId)\<close> is membership in the tag list.
\<close>

definition keepNote :: "string option \<Rightarrow> string \<Rightarrow> Note \<Rightarrow> bool" where
  "keepNote a q n =
     (if truthy a \<and> \<not> (the a \<in> set (tags_n n)) then False
      else if q \<noteq> [] \<and> \<not> includes_str (toLowerCase (title n)) (toLowerCase q)
              \<and> \<not> includes_str (toLowerCase (content n)) (toLowerCase q) then False
      else True)"

text \<open>
  The comparator of \<open>sort\<close> (line 98). \<open>new Date(text).getTime()\<close> is a function of the text
  given by the JavaScript engine, so it is the parameter \<open>getTime\<close>: the time value in
  milliseconds, or \<open>None\<close> for the \<open>NaN\<close> of a text that is not a date. A difference with a
  \<open>NaN\<close> operand is \<open>NaN\<close>. Time values are integers of magnitude at most \<open>8.64e15\<close>, so the
  floating point difference of two of them has the sign of the exact difference, and only
  the sign is used.
\<close>

definition compareFn :: "(string \<Rightarrow> int option) \<Rightarrow> Note \<Rightarrow> Note \<Rightarrow> int option" where
  "compareFn getTime a b =
     (case (getTime (updatedAt b), getTime (updatedAt a)) of
        (Some tb, Some ta) \<Rightarrow> Some (tb - ta)
      | _ \<Rightarrow> None)"

text \<open>
  \<open>Array.prototype.sort\<close> reads a comparator result \<open>NaN\<close> as \<open>+0\<close>, puts \<open>x\<close> before \<open>y\<close> when the
  result is negative and after it when positive, and is stable. For a comparator that is a
  consistent ordering this fixes the result, and the insertion sort below computes it. For
  any other comparator (here: when a date is \<open>NaN\<close>) ECMAScript leaves the order to the engine,
  which then returns some arrangement of the same elements; the insertion sort gives one
  such arrangement, and nothing is stated below of its order in that case but at one input
  of three notes, where V8's binary insertion returns the same order.
\<close>

definition sortCompare :: "('a \<Rightarrow> 'a \<Rightarrow> int option) \<Rightarrow> 'a \<Rightarrow> 'a \<Rightarrow> int" where
  "sortCompare comparefn x y = (case comparefn x y of None \<Rightarrow> 0 | Some v \<Rightarrow> v)"

fun insert_sorted :: "('a \<Rightarrow> 'a \<Rightarrow> int) \<Rightarrow> 'a \<Rightarrow> 'a list \<Rightarrow> 'a list" where
  "insert_sorted c x [] = [x]"
| "insert_sorted c x (y # ys) = (if c x y \<le> 0 then x # y # ys else y # insert_sorted c x ys)"

fun array_sort :: "('a \<Rightarrow> 'a \<Rightarrow> int) \<Rightarrow> 'a list \<Rightarrow> 'a list" where
  "array_sort c [] = []"
| "array_sort c (x # xs) = insert_sorted c x (array_sort c xs)"

text \<open>\<open>filteredNotes\<close> (lines 87 to 99), a function of the three dependencies of its \<open>useMemo\<close>.\<close>

definition filteredNotes ::
  "(string \<Rightarrow> int option) \<Rightarrow> Note list \<Rightarrow> string option \<Rightarrow> string \<Rightarrow> Note list" where
  "filteredNotes getTime ns a q =
     array_sort (sortCompare (compareFn getTime)) (filter (keepNote a q) ns)"

text \<open>
  The view as the specification words it. \<open>ci_substring q t\<close>: \<open>q\<close> is a case-insensitive
  substring of \<open>t\<close>. \<open>in_view a q n\<close>: the tag filter \<open>a\<close> is unset (\<open>null\<close>, or the empty string,
  which the code treats alike) or is in the tag list of \<open>n\<close>, and the search term \<open>q\<close> is empty
  or is a case-insensitive substring of the title or of the content. \<open>newer_or_same\<close>: both
  notes carry a date and the first one's is not earlier than the second one's.
\<close>

definition ci_substring :: "string \<Rightarrow> string \<Rightarrow> bool" where
  "ci_substring q t = (\<exists>p r. toLowerCase t = p @ toLowerCase q @ r)"

definition in_view :: "string option \<Rightarrow> string \<Rightarrow> Note \<Rightarrow> bool" where
  "in_view a q n =
     ((a = None \<or> a = Some [] \<or> the a \<in> set (tags_n n)) \<and>
      (q = [] \<or> ci_substring q (title n) \<or> ci_substring q (content n)))"

definition newer_or_same :: "(string \<Rightarrow> int option) \<Rightarrow> Note \<Rightarrow> Note \<Rightarrow> bool" where
  "newer_or_same getTime x y =
     (\<exists>tx ty. getTime (updatedAt x) = Some tx \<and> getTime (updatedAt y) = Some ty \<and> ty \<le> tx)"

section \<open>Serialization\<close>

text \<open>
  \<open>JSON.stringify\<close> and \<open>JSON.parse\<close> are functions of the JavaScript engine; they are modelled
  after ECMA-262 on the values a \<open>Note[]\<close> or a \<open>Tag[]\<close> is made of: strings, arrays and
  objects (an object is the list of its properties in their order). A \<open>char\<close> stands for
  one code unit of a JavaScript string; the model has the code units below 256. Numbers,
  \<open>true\<close>, \<open>false\<close> and \<open>null\<close> occur in no \<open>Note\<close> and no \<open>Tag\<close>; the model does not have
  them, and \<open>JSON_parse\<close> here rejects a text that has one, as it rejects an escape of a
  code unit from 256 on.
\<close>

text \<open>The errors that the calls of the effects can throw.\<close>

datatype js_error = SyntaxError | SecurityError | QuotaExceededError

datatype json = JString string | JArray "json list" | JObject "(string \<times> json) list"

text \<open>
  \<open>QuoteJSONString\<close>: the quotation mark, the backslash and the control characters with a
  short form are written with it, every other code unit below \<open>0x20\<close> as \<open>\u00\<close> and two
  lower case hexadecimal digits, and everything else as it is.
\<close>

definition hex_digit :: "nat \<Rightarrow> char" where
  "hex_digit k = ''0123456789abcdef'' ! k"

definition quote_char :: "char \<Rightarrow> string" where
  "quote_char c =
     (case map_of [(CHR 0x08, ''b''), (CHR 0x09, ''t''), (CHR 0x0A, ''n''), (CHR 0x0C, ''f''),
                   (CHR 0x0D, ''r''), (CHR 0x22, [CHR 0x22]), (CHR 0x5C, [CHR 0x5C])] c of
        Some e \<Rightarrow> CHR 0x5C # e
      | None \<Rightarrow>
          if (of_char c :: nat) < 32
          then [CHR 0x5C, CHR ''u'', CHR ''0'', CHR ''0'',
                hex_digit (of_char c div 16), hex_digit (of_char c mod 16)]
          else [c])"

definition QuoteJSONString :: "string \<Rightarrow> string" where
  "QuoteJSONString s = CHR 0x22 # concat (map quote_char s) @ [CHR 0x22]"

text \<open>
  \<open>SerializeJSONArray\<close> and \<open>SerializeJSONObject\<close> without a gap: the elements, or the
  \<open>key:value\<close> members, separated by commas.
\<close>

fun join :: "string list \<Rightarrow> string" where
  "join [] = []"
| "join [x] = x"
| "join (x # y # ys) = x @ CHR '','' # join (y # ys)"

fun JSON_stringify :: "json \<Rightarrow> string" where
  "JSON_stringify (JString s) = QuoteJSONString s"
| "JSON_stringify (JArray xs) = CHR ''['' # join (map JSON_stringify xs) @ [CHR '']'']"
| "JSON_stringify (JObject ms) =
     CHR ''{'' # join (map (\<lambda>(k, v). QuoteJSONString k @ CHR '':'' # JSON_stringify v) ms) @ [CHR ''}'']"

text \<open>
  \<open>JSON.parse\<close>. White space (space, tab, line feed, carriage return) may stand around
  every token. Inside a string a backslash starts one of the escapes of the JSON grammar, a
  raw code unit below \<open>0x20\<close> is an error, and the closing quotation mark ends it;
  \<open>parse_chars\<close> reads from behind the opening quotation mark and returns the string and the
  rest of the text.
\<close>

definition is_ws :: "char \<Rightarrow> bool" where
  "is_ws c = (c = CHR 0x20 \<or> c = CHR 0x09 \<or> c = CHR 0x0A \<or> c = CHR 0x0D)"

fun skip_ws :: "string \<Rightarrow> string" where
  "skip_ws [] = []"
| "skip_ws (c # cs) = (if is_ws c then skip_ws cs else c # cs)"

definition hex_value :: "char \<Rightarrow> nat option" where
  "hex_value c =
     map_of [(CHR ''0'', 0), (CHR ''1'', 1), (CHR ''2'', 2), (CHR ''3'', 3), (CHR ''4'', 4),
             (CHR ''5'', 5), (CHR ''6'', 6), (CHR ''7'', 7), (CHR ''8'', 8), (CHR ''9'', 9),
             (CHR ''a'', 10), (CHR ''b'', 11), (CHR ''c'', 12), (CHR ''d'', 13), (CHR ''e'', 14),
             (CHR ''f'', 15), (CHR ''A'', 10), (CHR ''B'', 11), (CHR ''C'', 12), (CHR ''D'', 13),
             (CHR ''E'', 14), (CHR ''F'', 15)] c"

definition unescape :: "char \<Rightarrow> char option" where
  "unescape c =
     map_of [(CHR 0x22, CHR 0x22), (CHR 0x5C, CHR 0x5C), (CHR ''/'', CHR ''/''),
             (CHR ''b'', CHR 0x08), (CHR ''f'', CHR 0x0C), (CHR ''n'', CHR 0x0A),
             (CHR ''r'', CHR 0x0D), (CHR ''t'', CHR 0x09)] c"

definition code_unit :: "char \<Rightarrow> char \<Rightarrow> char \<Rightarrow> char \<Rightarrow> char option" where
  "code_unit h1 h2 h3 h4 =
     (case (hex_value h1, hex_value h2, hex_value h3, hex_value h4) of
        (Some a, Some b, Some c, Some d) \<Rightarrow>
          if a = 0 \<and> b = 0
          then Some (Char (odd d) (odd (d div 2)) (odd (d div 4)) (odd (d div 8))
                          (odd c) (odd (c div 2)) (odd (c div 4)) (odd (c div 8)))
          else None
      | _ \<Rightarrow> None)"

fun parse_chars :: "string \<Rightarrow> (string \<times> string) option" where
  "parse_chars [] = None"
| "parse_chars (c # cs) =
     (if c = CHR 0x22 then Some ([], cs)
      else if c = CHR 0x5C then
        (case cs of
           [] \<Rightarrow> None
         | e # cs1 \<Rightarrow>
             if e = CHR ''u'' then
               (case cs1 of
                  h1 # h2 # h3 # h4 # cs2 \<Rightarrow>
                    (case code_unit h1 h2 h3 h4 of
                       None \<Rightarrow> None
                     | Some k \<Rightarrow> map_option (\<lambda>(s, r). (k # s, r)) (parse_chars cs2))
                | _ \<Rightarrow> None)
             else
               (case unescape e of
                  None \<Rightarrow> None
                | Some k \<Rightarrow> map_option (\<lambda>(s, r). (k # s, r)) (parse_chars cs1)))
      else if (of_char c :: nat) < 32 then None
      else map_option (\<lambda>(s, r). (c # s, r)) (parse_chars cs))"

text \<open>
  The values, by recursive descent. The first argument bounds the nesting of the calls; every
  call reads at least one character before it calls again, so \<open>JSON_parse\<close> starts with more
  than the length of the text. A text that is not of the grammar, or that has anything but
  white space behind the value, is a \<open>SyntaxError\<close>.
\<close>

fun parse_value :: "nat \<Rightarrow> string \<Rightarrow> (json \<times> string) option"
and parse_elements :: "nat \<Rightarrow> string \<Rightarrow> (json list \<times> string) option"
and parse_members :: "nat \<Rightarrow> string \<Rightarrow> ((string \<times> json) list \<times> string) option" where
  "parse_value 0 cs = None"
| "parse_value (Suc n) cs =
     (case skip_ws cs of
        [] \<Rightarrow> None
      | c # r \<Rightarrow>
          if c = CHR 0x22 then map_option (\<lambda>(s, r'). (JString s, r')) (parse_chars r)
          else if c = CHR ''['' then
            (case skip_ws r of
               [] \<Rightarrow> None
             | d # r' \<Rightarrow>
                 if d = CHR '']'' then Some (JArray [], r')
                 else map_option (\<lambda>(xs, r''). (JArray xs, r'')) (parse_elements n r))
          else if c = CHR ''{'' then
            (case skip_ws r of
               [] \<Rightarrow> None
             | d # r' \<Rightarrow>
                 if d = CHR ''}'' then Some (JObject [], r')
                 else map_option (\<lambda>(ms, r''). (JObject ms, r'')) (parse_members n r))
          else None)"
| "parse_elements 0 cs = None"
| "parse_elements (Suc n) cs =
     (case parse_value n cs of
        None \<Rightarrow> None
      | Some (v, r) \<Rightarrow>
          (case skip_ws r of
             [] \<Rightarrow> None
           | d # r' \<Rightarrow>
               if d = CHR '','' then map_option (\<lambda>(xs, r''). (v # xs, r'')) (parse_elements n r')
               else if d = CHR '']'' then Some ([v], r')
               else None))"
| "parse_members 0 cs = None"
| "parse_members (Suc n) cs =
     (case skip_ws cs of
        [] \<Rightarrow> None
      | q # r0 \<Rightarrow>
          if q \<noteq> CHR 0x22 then None
          else
            (case parse_chars r0 of
               None \<Rightarrow> None
             | Some (k, r1) \<Rightarrow>
                 (case skip_ws r1 of
                    [] \<Rightarrow> None
                  | c # r2 \<Rightarrow>
                      if c \<noteq> CHR '':'' then None
                      else
                        (case parse_value n r2 of
                           None \<Rightarrow> None
                         | Some (v, r3) \<Rightarrow>
                             (case skip_ws r3 of
                                [] \<Rightarrow> None
                              | d # r4 \<Rightarrow>
                                  if d = CHR '','' then
                                    map_option (\<lambda>(ms, r''). ((k, v) # ms, r'')) (parse_members n r4)
                                  else if d = CHR ''}'' then Some ([(k, v)], r4)
                                  else None)))))"

definition JSON_parse :: "string \<Rightarrow> js_error + json" where
  "JSON_parse text =
     (case parse_value (Suc (length text)) text of
        None \<Rightarrow> Inl SyntaxError
      | Some (v, r) \<Rightarrow> if skip_ws r = [] then Inr v else Inl SyntaxError)"

text \<open>
  The two collections as JSON values, with the property names and the property order of the
  object literals in \<open>handleAddNote\<close> and \<open>handleAddTag\<close>, and what the save effects write. An
  object that reaches \<open>handleSaveNote\<close> from the editor may list its properties in another
  order, and the text written for it then has them in that order; so the properties of the
  save effects below are stated of what the written text parses to, not of its characters.
\<close>

definition note_json :: "Note \<Rightarrow> json" where
  "note_json n =
     JObject [(''id'', JString (id_n n)), (''title'', JString (title n)),
              (''content'', JString (content n)), (''tags'', JArray (map JString (tags_n n))),
              (''createdAt'', JString (createdAt n)), (''updatedAt'', JString (updatedAt n))]"

definition tag_json :: "Tag \<Rightarrow> json" where
  "tag_json t = JObject [(''id'', JString (id_t t)), (''name'', JString (name_t t))]"

definition stringifyNotes :: "Note list \<Rightarrow> string" where
  "stringifyNotes ns = JSON_stringify (JArray (map note_json ns))"

definition stringifyTags :: "Tag list \<Rightarrow> string" where
  "stringifyTags ts = JSON_stringify (JArray (map tag_json ts))"

text \<open>
  A parsed value read at the type \<open>Note[]\<close> or \<open>Tag[]\<close>, as \<open>setNotes(JSON.parse(storedNotes))\<close>
  does without a check: \<open>property\<close> is the property access \<open>obj[key]\<close>, where the last member
  with the key counts. \<open>None\<close> marks a value of another shape, for which \<open>app_state\<close> has no
  state.
\<close>

definition property :: "string \<Rightarrow> (string \<times> json) list \<Rightarrow> json option" where
  "property key ms = map_of (rev ms) key"

fun as_string :: "json \<Rightarrow> string option" where
  "as_string (JString s) = Some s"
| "as_string j = None"

fun as_array :: "(json \<Rightarrow> 'a option) \<Rightarrow> json \<Rightarrow> 'a list option" where
  "as_array f (JArray xs) = those (map f xs)"
| "as_array f j = None"

fun as_note :: "json \<Rightarrow> Note option" where
  "as_note (JObject ms) =
     (case (Option.bind (property ''id'' ms) as_string,
            Option.bind (property ''title'' ms) as_string,
            Option.bind (property ''content'' ms) as_string,
            Option.bind (property ''tags'' ms) (as_array as_string),
            Option.bind (property ''createdAt'' ms) as_string,
            Option.bind (property ''updatedAt'' ms) as_string) of
        (Some i, Some t, Some c, Some g, Some cr, Some u) \<Rightarrow>
          Some \<lparr>id_n = i, title = t, content = c, tags_n = g, createdAt = cr, updatedAt = u\<rparr>
      | _ \<Rightarrow> None)"
| "as_note j = None"

fun as_tag :: "json \<Rightarrow> Tag option" where
  "as_tag (JObject ms) =
     (case (Option.bind (property ''id'' ms) as_string,
            Option.bind (property ''name'' ms) as_string) of
        (Some i, Some n) \<Rightarrow> Some \<lparr>id_t = i, name_t = n\<rparr>
      | _ \<Rightarrow> None)"
| "as_tag j = None"

text \<open>A bound on the nesting of the calls that \<open>parse_value\<close> makes on a serialized value.\<close>

fun fuel :: "json \<Rightarrow> nat" where
  "fuel (JString s) = 1"
| "fuel (JArray xs) = Suc (sum_list (map (\<lambda>x. Suc (fuel x)) xs))"
| "fuel (JObject ms) = Suc (sum_list (map (\<lambda>m. Suc (fuel (snd m))) ms))"

section \<open>The persistence effects\<close>

text \<open>
  What the three \<open>useEffect\<close> bodies touch besides the component state: the contents of
  \<open>localStorage\<close> and the messages given to \<open>console.error\<close>, each with the error logged
  beside it.
\<close>

record world =
  app :: app_state
  localStorage :: "string \<rightharpoonup> string"
  console :: "(string \<times> js_error) list"

text \<open>
  \<open>localStorage.getItem\<close> and \<open>localStorage.setItem\<close>. Whether a call throws is the browser's
  decision (storage blocked, quota exceeded), so it is an argument: \<open>Some e\<close> when this call
  throws \<open>e\<close>, \<open>None\<close> when it goes through.
\<close>

definition getItem :: "js_error option \<Rightarrow> world \<Rightarrow> string \<Rightarrow> js_error + string option" where
  "getItem fault w key = (case fault of Some e \<Rightarrow> Inl e | None \<Rightarrow> Inr (localStorage w key))"

definition setItem :: "js_error option \<Rightarrow> string \<Rightarrow> string \<Rightarrow> world \<Rightarrow> js_error + world" where
  "setItem fault key v w =
     (case fault of
        Some e \<Rightarrow> Inl e
      | None \<Rightarrow> Inr (w\<lparr>localStorage := (localStorage w)(key \<mapsto> v)\<rparr>))"

text \<open>
  The \<open>try\<close> block of the load effect (lines 22 to 29). \<open>JSON.parse\<close> read at the types
  \<open>Note[]\<close> and \<open>Tag[]\<close> is the pair of parameters \<open>parseNotes\<close> and \<open>parseTags\<close>, \<open>Inl\<close> when it
  throws. (The code stores the parsed value without a check; a text that parses to a value of
  another shape is not covered.) The result is the exception that left the block, if any,
  and the state with the \<open>setNotes\<close> and \<open>setTags\<close> calls made before it.
\<close>

definition loadTry ::
  "(string \<Rightarrow> js_error + Note list) \<Rightarrow> (string \<Rightarrow> js_error + Tag list) \<Rightarrow>
   js_error option \<Rightarrow> js_error option \<Rightarrow> world \<Rightarrow> js_error option \<times> app_state" where
  "loadTry parseNotes parseTags fault1 fault2 w =
     (case getItem fault1 w ''notes_data'' of
        Inl e \<Rightarrow> (Some e, app w)
      | Inr storedNotes \<Rightarrow>
     (case getItem fault2 w ''tags_data'' of
        Inl e \<Rightarrow> (Some e, app w)
      | Inr storedTags \<Rightarrow>
     (case (if truthy storedNotes
            then (case parseNotes (the storedNotes) of
                    Inl e \<Rightarrow> Inl e
                  | Inr ns \<Rightarrow> Inr ((app w)\<lparr>notes := ns\<rparr>))
            else Inr (app w)) of
        Inl e \<Rightarrow> (Some e, app w)
      | Inr s1 \<Rightarrow>
     (case (if truthy storedTags
            then (case parseTags (the storedTags) of
                    Inl e \<Rightarrow> Inl e
                  | Inr ts \<Rightarrow> Inr (s1\<lparr>tags := ts\<rparr>))
            else Inr s1) of
        Inl e \<Rightarrow> (Some e, s1)
      | Inr s2 \<Rightarrow> (None, s2)))))"

text \<open>The whole load effect (lines 20 to 35): \<open>try\<close>, then \<open>catch\<close>, then \<open>finally\<close>.\<close>

definition loadEffect ::
  "(string \<Rightarrow> js_error + Note list) \<Rightarrow> (string \<Rightarrow> js_error + Tag list) \<Rightarrow>
   js_error option \<Rightarrow> js_error option \<Rightarrow> world \<Rightarrow> world" where
  "loadEffect parseNotes parseTags fault1 fault2 w =
     (let (thrown, s) = loadTry parseNotes parseTags fault1 fault2 w;
          w1 = (case thrown of
                  Some e \<Rightarrow> w\<lparr>console := console w @ [(''Failed to load data from localStorage'', e)]\<rparr>
                | None \<Rightarrow> w)
      in w1\<lparr>app := s\<lparr>isInitialized := True\<rparr>\<rparr>)"

text \<open>
  The two save effects (lines 37 to 45 and 47 to 55). \<open>rendered\<close> is the state of the render
  that scheduled the effect: the closure reads \<open>isInitialized\<close> and the collection from it.
  A fault stands for any throw inside the \<open>try\<close>; \<open>JSON.stringify\<close> itself does not throw on a
  \<open>Note[]\<close> or a \<open>Tag[]\<close>.
\<close>

definition saveNotesEffect :: "js_error option \<Rightarrow> app_state \<Rightarrow> world \<Rightarrow> world" where
  "saveNotesEffect fault rendered w =
     (if isInitialized rendered then
        (case setItem fault ''notes_data'' (stringifyNotes (notes rendered)) w of
           Inl e \<Rightarrow> w\<lparr>console := console w @ [(''Failed to save notes to localStorage'', e)]\<rparr>
         | Inr w' \<Rightarrow> w')
      else w)"

definition saveTagsEffect :: "js_error option \<Rightarrow> app_state \<Rightarrow> world \<Rightarrow> world" where
  "saveTagsEffect fault rendered w =
     (if isInitialized rendered then
        (case setItem fault ''tags_data'' (stringifyTags (tags rendered)) w of
           Inl e \<Rightarrow> w\<lparr>console := console w @ [(''Failed to save tags to localStorage'', e)]\<rparr>
         | Inr w' \<Rightarrow> w')
      else w)"

text \<open>
  When the effects run. After the first render React runs the three effects in the order
  they are declared, each with the state of that first render; the state updates of the load
  effect are applied afterwards (\<open>mountEffects\<close>). After every later render React runs a save
  effect when one of its dependencies is a new value: \<open>isInitialized\<close> after the first
  commit (\<open>initializedEffects\<close>), and the collection after a handler that called its setter,
  since \<open>map\<close>, \<open>filter\<close> and the spread each build a new array (\<open>dispatch\<close>).
\<close>

definition mountEffects ::
  "(string \<Rightarrow> js_error + Note list) \<Rightarrow> (string \<Rightarrow> js_error + Tag list) \<Rightarrow>
   js_error option \<Rightarrow> js_error option \<Rightarrow> js_error option \<Rightarrow> js_error option \<Rightarrow> world \<Rightarrow> world" where
  "mountEffects parseNotes parseTags fault1 fault2 fault3 fault4 w =
     (let rendered = app w;
          w1 = loadEffect parseNotes parseTags fault1 fault2 w;
          w2 = saveNotesEffect fault3 rendered w1;
          w3 = saveTagsEffect fault4 rendered w2
      in w3)"

definition initializedEffects :: "js_error option \<Rightarrow> js_error option \<Rightarrow> world \<Rightarrow> world" where
  "initializedEffects fault1 fault2 w =
     saveTagsEffect fault2 (app w) (saveNotesEffect fault1 (app w) w)"

fun sets_notes :: "event \<Rightarrow> bool" where
  "sets_notes (AddNote uuid now1 now2) = True"
| "sets_notes (SaveNote updatedNote) = True"
| "sets_notes (DeleteNote noteId) = True"
| "sets_notes e = False"

fun sets_tags :: "event \<Rightarrow> bool" where
  "sets_tags (AddTag uuid tagName) = True"
| "sets_tags e = False"

definition dispatch :: "js_error option \<Rightarrow> js_error option \<Rightarrow> world \<Rightarrow> event \<Rightarrow> world" where
  "dispatch fault1 fault2 w e =
     (let w1 = w\<lparr>app := step (app w) e\<rparr>;
          w2 = (if sets_notes e then saveNotesEffect fault1 (app w1) w1 else w1);
          w3 = (if sets_tags e then saveTagsEffect fault2 (app w1) w2 else w2)
      in w3)"

text \<open>A sequence of events, each with the faults of the writes that follow it.\<close>

fun dispatch_all :: "world \<Rightarrow> (event \<times> js_error option \<times> js_error option) list \<Rightarrow> world" where
  "dispatch_all w [] = w"
| "dispatch_all w ((e, fault1, fault2) # es) = dispatch_all (dispatch fault1 fault2 w e) es"

section \<open>Properties of the handlers\<close>

lemma step_distinct:
  "distinct (map id_n (notes s)) \<Longrightarrow> fresh_ids s (e # es) \<Longrightarrow>
   distinct (map id_n (notes (step s e)))"
proof (cases e)
  case (AddNote uuid now1 now2)
  assume "distinct (map id_n (notes s))" "fresh_ids s (e # es)"
  with AddNote show ?thesis
    by (simp add: handleAddNote_def newNote_def Let_def)
next
  case (SaveNote u)
  have "map id_n (map (\<lambda>n. if id_n n = id_n u then u else n) (notes s)) = map id_n (notes s)"
    by (induction "notes s") auto
  moreover assume "distinct (map id_n (notes s))"
  ultimately show ?thesis using SaveNote
    by (simp add: handleSaveNote_def del: map_map)
next
  case (DeleteNote k)
  assume "distinct (map id_n (notes s))"
  then show ?thesis using DeleteNote
    by (simp add: handleDeleteNote_def Let_def distinct_map_filter)
qed (simp_all add: handleAddTag_def handleSelectTag_def Let_def)

lemma fresh_ids_step: "fresh_ids s (e # es) \<Longrightarrow> fresh_ids (step s e) es"
  by (cases e) simp_all

lemma fresh_ids_take: "fresh_ids s es \<Longrightarrow> fresh_ids s (take k es)"
proof (induction es arbitrary: s k)
  case Nil
  then show ?case by simp
next
  case (Cons e es)
  show ?case
  proof (cases k)
    case 0
    then show ?thesis by simp
  next
    case (Suc j)
    from Cons.prems have "fresh_ids (step s e) es" by (rule fresh_ids_step)
    then have rest: "fresh_ids (step s e) (take j es)" by (rule Cons.IH)
    show ?thesis
    proof (cases e)
      case (AddNote uuid now1 now2)
      with Cons.prems rest Suc show ?thesis by simp
    qed (use rest Suc in simp_all)
  qed
qed

lemma run_distinct:
  "distinct (map id_n (notes s)) \<Longrightarrow> fresh_ids s es \<Longrightarrow> distinct (map id_n (notes (run s es)))"
proof (induction es arbitrary: s)
  case Nil
  then show ?case by simp
next
  case (Cons e es)
  from Cons.prems have "distinct (map id_n (notes (step s e)))" by (rule step_distinct)
  moreover from Cons.prems(2) have "fresh_ids (step s e) es" by (rule fresh_ids_step)
  ultimately show ?case using Cons.IH by simp
qed

text \<open>
  C2. Start from a collection whose identifiers are pairwise distinct and run any sequence of
  events in which every identifier generated for a new note is fresh. Then after every prefix
  of the sequence (so at every moment of the run) the identifiers of the notes collection are
  pairwise distinct.
\<close>

theorem notes_never_share_an_identifier:
  "distinct (map id_n (notes s)) \<Longrightarrow> fresh_ids s es \<Longrightarrow>
   distinct (map id_n (notes (run s (take k es))))"
  by (rule run_distinct) (simp_all add: fresh_ids_take)

theorem notes_never_share_an_identifier_witness:
  "distinct (map id_n (notes initial_state)) \<and>
   fresh_ids initial_state
     [AddNote ''u1'' ''t1'' ''t1'', AddNote ''u2'' ''t2'' ''t2'',
      SaveNote \<lparr>id_n = ''u1'', title = ''a'', content = ''b'', tags_n = [], createdAt = ''t1'',
                updatedAt = ''t3''\<rparr>,
      DeleteNote ''u2''] \<and>
   distinct (map id_n (notes (run initial_state (take 3
     [AddNote ''u1'' ''t1'' ''t1'', AddNote ''u2'' ''t2'' ''t2'',
      SaveNote \<lparr>id_n = ''u1'', title = ''a'', content = ''b'', tags_n = [], createdAt = ''t1'',
                updatedAt = ''t3''\<rparr>,
      DeleteNote ''u2'']))))"
proof -
  have d: "distinct (map id_n (notes initial_state))"
    by (simp add: initial_state_def)
  have f: "fresh_ids initial_state
     [AddNote ''u1'' ''t1'' ''t1'', AddNote ''u2'' ''t2'' ''t2'',
      SaveNote \<lparr>id_n = ''u1'', title = ''a'', content = ''b'', tags_n = [], createdAt = ''t1'',
                updatedAt = ''t3''\<rparr>,
      DeleteNote ''u2'']"
    by (simp add: initial_state_def handleAddNote_def newNote_def Let_def)
  from d f notes_never_share_an_identifier [OF d f, of 3] show ?thesis by blast
qed

section \<open>Creating a note\<close>

text \<open>
  C3, as amended. \<open>handleAddNote\<close> puts one new note in front of the collection, all earlier
  notes following in their order, and makes it the active note. The new note has the
  generated identifier (so an identifier no present note has, when the generator returned a
  fresh one), empty title and content, the tag list \<open>[activeTagId]\<close> when \<open>activeTagId\<close> is a
  non-empty string and \<open>[]\<close> when it is \<open>null\<close> or the empty string, \<open>createdAt\<close> equal to the
  first clock reading and \<open>updatedAt\<close> equal to the second one; the two are equal when the two
  readings are.
\<close>

theorem handleAddNote_inserts_new_note:
  "notes (handleAddNote uuid now1 now2 s) = newNote uuid now1 now2 (activeTagId s) # notes s \<and>
   activeNoteId (handleAddNote uuid now1 now2 s) = Some uuid \<and>
   id_n (newNote uuid now1 now2 a) = uuid \<and>
   title (newNote uuid now1 now2 a) = [] \<and>
   content (newNote uuid now1 now2 a) = [] \<and>
   tags_n (newNote uuid now1 now2 a) =
     (case a of None \<Rightarrow> [] | Some t \<Rightarrow> if t = [] then [] else [t]) \<and>
   createdAt (newNote uuid now1 now2 a) = now1 \<and>
   updatedAt (newNote uuid now1 now2 a) = now2 \<and>
   (now1 = now2 \<longrightarrow>
      createdAt (newNote uuid now1 now2 a) = updatedAt (newNote uuid now1 now2 a)) \<and>
   (uuid \<notin> set (map id_n (notes s)) \<longrightarrow>
      (\<forall>m \<in> set (notes s). id_n m \<noteq> id_n (newNote uuid now1 now2 (activeTagId s))))"
  by (cases a) (auto simp: handleAddNote_def newNote_def Let_def)

theorem handleAddNote_inserts_new_note_witness:
  "createdAt (newNote ''u2'' ''t1'' ''t1'' (Some ''work'')) =
     updatedAt (newNote ''u2'' ''t1'' ''t1'' (Some ''work'')) \<and>
   tags_n (newNote ''u2'' ''t1'' ''t1'' (Some ''work'')) = [''work''] \<and>
   ''u2'' \<notin> set (map id_n (notes (handleAddNote ''u1'' ''t0'' ''t0'' initial_state))) \<and>
   id_n (hd (notes (handleAddNote ''u1'' ''t0'' ''t0'' initial_state))) \<noteq>
     id_n (newNote ''u2'' ''t1'' ''t1''
       (activeTagId (handleAddNote ''u1'' ''t0'' ''t0'' initial_state)))"
  using handleAddNote_inserts_new_note
    [of "''u2''" "''t1''" "''t1''" "handleAddNote ''u1'' ''t0'' ''t0'' initial_state"
        "Some ''work''"]
  by (simp add: handleAddNote_def newNote_def initial_state_def Let_def)

text \<open>
  The claim as written fails twice. The two timestamps come from two separate clock
  readings, so they differ when the clock advances between them; and with the empty string
  as the active tag filter the new note gets the empty tag list, not the list holding the
  empty string.
\<close>

theorem handleAddNote_counterexample:
  "createdAt (hd (notes (handleAddNote ''u1'' ''2024-05-01T10:00:00.000Z''
      ''2024-05-01T10:00:00.001Z'' initial_state))) \<noteq>
   updatedAt (hd (notes (handleAddNote ''u1'' ''2024-05-01T10:00:00.000Z''
      ''2024-05-01T10:00:00.001Z'' initial_state))) \<and>
   activeTagId (initial_state\<lparr>activeTagId := Some ''''\<rparr>) \<noteq> None \<and>
   tags_n (hd (notes (handleAddNote ''u1'' ''2024-05-01T10:00:00.000Z''
      ''2024-05-01T10:00:00.000Z'' (initial_state\<lparr>activeTagId := Some ''''\<rparr>)))) \<noteq> ['''']"
  by (simp add: handleAddNote_def newNote_def initial_state_def Let_def)

section \<open>Saving a note\<close>

text \<open>
  C4. \<open>handleSaveNote\<close> keeps the length of the collection; at every position it holds the
  replacement record where the old note had the replacement's identifier and the old note
  itself everywhere else, so the order is kept and only matching notes change; and when no
  note has the replacement's identifier, the whole state is unchanged.
\<close>

theorem handleSaveNote_replaces_in_place:
  "length (notes (handleSaveNote u s)) = length (notes s) \<and>
   (\<forall>i. i < length (notes s) \<longrightarrow>
      notes (handleSaveNote u s) ! i =
        (if id_n (notes s ! i) = id_n u then u else notes s ! i)) \<and>
   (id_n u \<notin> set (map id_n (notes s)) \<longrightarrow> handleSaveNote u s = s)"
proof -
  have same: "id_n u \<notin> set (map id_n xs) \<Longrightarrow>
      map (\<lambda>n. if id_n n = id_n u then u else n) xs = xs" for xs
    by (induction xs) auto
  show ?thesis
    by (simp add: handleSaveNote_def same)
qed

theorem handleSaveNote_replaces_in_place_witness:
  "(1::nat) < length (notes \<lparr>notes = [
       \<lparr>id_n = ''a'', title = ''A'', content = ''x'', tags_n = [], createdAt = ''t0'',
         updatedAt = ''t0''\<rparr>,
       \<lparr>id_n = ''b'', title = ''B'', content = ''y'', tags_n = [], createdAt = ''t1'',
         updatedAt = ''t1''\<rparr>],
      tags = [], activeNoteId = None, activeTagId = None, searchTerm = [],
      isSidebarOpen = False, isInitialized = True, isAskGeminiModalOpen = False\<rparr>) \<and>
   notes (handleSaveNote
      \<lparr>id_n = ''b'', title = ''B2'', content = ''z'', tags_n = [''w''], createdAt = ''t1'',
        updatedAt = ''t2''\<rparr>
      \<lparr>notes = [
       \<lparr>id_n = ''a'', title = ''A'', content = ''x'', tags_n = [], createdAt = ''t0'',
         updatedAt = ''t0''\<rparr>,
       \<lparr>id_n = ''b'', title = ''B'', content = ''y'', tags_n = [], createdAt = ''t1'',
         updatedAt = ''t1''\<rparr>],
      tags = [], activeNoteId = None, activeTagId = None, searchTerm = [],
      isSidebarOpen = False, isInitialized = True, isAskGeminiModalOpen = False\<rparr>) ! 1 =
     \<lparr>id_n = ''b'', title = ''B2'', content = ''z'', tags_n = [''w''], createdAt = ''t1'',
        updatedAt = ''t2''\<rparr> \<and>
   id_n \<lparr>id_n = ''c'', title = ''C'', content = [], tags_n = [], createdAt = ''t3'',
        updatedAt = ''t3''\<rparr> \<notin> set (map id_n (notes (handleAddNote ''a'' ''t0'' ''t0'' initial_state))) \<and>
   handleSaveNote
      \<lparr>id_n = ''c'', title = ''C'', content = [], tags_n = [], createdAt = ''t3'',
        updatedAt = ''t3''\<rparr> (handleAddNote ''a'' ''t0'' ''t0'' initial_state) =
     handleAddNote ''a'' ''t0'' ''t0'' initial_state"
  using handleSaveNote_replaces_in_place
    [of "\<lparr>id_n = ''b'', title = ''B2'', content = ''z'', tags_n = [''w''], createdAt = ''t1'',
        updatedAt = ''t2''\<rparr>"
      "\<lparr>notes = [
       \<lparr>id_n = ''a'', title = ''A'', content = ''x'', tags_n = [], createdAt = ''t0'',
         updatedAt = ''t0''\<rparr>,
       \<lparr>id_n = ''b'', title = ''B'', content = ''y'', tags_n = [], createdAt = ''t1'',
         updatedAt = ''t1''\<rparr>],
      tags = [], activeNoteId = None, activeTagId = None, searchTerm = [],
      isSidebarOpen = False, isInitialized = True, isAskGeminiModalOpen = False\<rparr>"]
    handleSaveNote_replaces_in_place
    [of "\<lparr>id_n = ''c'', title = ''C'', content = [], tags_n = [], createdAt = ''t3'',
        updatedAt = ''t3''\<rparr>" "handleAddNote ''a'' ''t0'' ''t0'' initial_state"]
  by (simp add: handleAddNote_def newNote_def initial_state_def Let_def)

section \<open>Deleting a note\<close>

text \<open>
  C5. After \<open>handleDeleteNote\<close> no note with the given identifier is left, the notes with any
  other identifier are all still there in their order (the collection is the old one
  filtered), the active selection is \<open>null\<close> when it was the deleted identifier, and it is what
  it was when it was anything else.
\<close>

theorem handleDeleteNote_removes_by_id:
  "noteId \<notin> set (map id_n (notes (handleDeleteNote noteId s))) \<and>
   notes (handleDeleteNote noteId s) = filter (\<lambda>n. id_n n \<noteq> noteId) (notes s) \<and>
   filter (\<lambda>n. id_n n \<noteq> noteId) (notes (handleDeleteNote noteId s)) =
     filter (\<lambda>n. id_n n \<noteq> noteId) (notes s) \<and>
   (activeNoteId s = Some noteId \<longrightarrow> activeNoteId (handleDeleteNote noteId s) = None) \<and>
   (activeNoteId s \<noteq> Some noteId \<longrightarrow>
      activeNoteId (handleDeleteNote noteId s) = activeNoteId s)"
  by (auto simp: handleDeleteNote_def Let_def)

theorem handleDeleteNote_removes_by_id_witness:
  "activeNoteId (handleAddNote ''u1'' ''t0'' ''t0'' initial_state) = Some ''u1'' \<and>
   activeNoteId (handleDeleteNote ''u1'' (handleAddNote ''u1'' ''t0'' ''t0'' initial_state)) = None \<and>
   activeNoteId (handleAddNote ''u1'' ''t0'' ''t0'' initial_state) \<noteq> Some ''u0'' \<and>
   activeNoteId (handleDeleteNote ''u0'' (handleAddNote ''u1'' ''t0'' ''t0'' initial_state)) =
     Some ''u1''"
  using handleDeleteNote_removes_by_id [of "''u1''" "handleAddNote ''u1'' ''t0'' ''t0'' initial_state"]
    handleDeleteNote_removes_by_id [of "''u0''" "handleAddNote ''u1'' ''t0'' ''t0'' initial_state"]
  by (simp add: handleAddNote_def newNote_def initial_state_def Let_def)

section \<open>Creating a tag\<close>

text \<open>
  C9, as amended. \<open>handleAddTag\<close> returns the tag made of the generated identifier and the
  given name, and the new tags collection is the old one followed by that tag. The code does
  not compare the identifier with those in use: it is an identifier no present tag has
  exactly when the generator returned such a one, and a collection of pairwise distinct
  identifiers stays so exactly then. No event changes the tags collection in any other way:
  after every event it is the old collection, or for \<open>AddTag\<close> the old collection with the
  new tag at the end; so along every run the old tags stay where they were.
\<close>

theorem handleAddTag_appends:
  "fst (handleAddTag uuid tagName s) = \<lparr>id_t = uuid, name_t = tagName\<rparr> \<and>
   tags (snd (handleAddTag uuid tagName s)) = tags s @ [fst (handleAddTag uuid tagName s)] \<and>
   (uuid \<notin> set (map id_t (tags s)) \<longrightarrow>
      (\<forall>t \<in> set (tags s). id_t t \<noteq> id_t (fst (handleAddTag uuid tagName s)))) \<and>
   tags (step s e) =
     (case e of AddTag u nm \<Rightarrow> tags s @ [\<lparr>id_t = u, name_t = nm\<rparr>] | _ \<Rightarrow> tags s) \<and>
   take (length (tags s)) (tags (run s es)) = tags s \<and>
   (distinct (map id_t (tags s)) \<longrightarrow>
      distinct (map id_t (tags (snd (handleAddTag uuid tagName s)))) =
        (uuid \<notin> set (map id_t (tags s))))"
proof -
  have one: "tags (step s' e') =
      (case e' of AddTag u nm \<Rightarrow> tags s' @ [\<lparr>id_t = u, name_t = nm\<rparr>] | _ \<Rightarrow> tags s')"
    for s' e'
    by (cases e')
      (simp_all add: handleAddNote_def handleSaveNote_def handleDeleteNote_def
        handleAddTag_def handleSelectTag_def Let_def)
  have ext: "\<exists>ts. tags (run s' es) = tags s' @ ts" for s'
  proof (induction es arbitrary: s')
    case Nil
    show ?case by simp
  next
    case (Cons e' es)
    obtain ts where "tags (run (step s' e') es) = tags (step s' e') @ ts"
      using Cons.IH by blast
    moreover obtain us where "tags (step s' e') = tags s' @ us"
      using one [of s' e'] by (cases e') simp_all
    ultimately show ?case by simp
  qed
  obtain ts where "tags (run s es) = tags s @ ts" using ext by blast
  then have "take (length (tags s)) (tags (run s es)) = tags s" by simp
  then show ?thesis using one [of s e]
    by (auto simp: handleAddTag_def Let_def)
qed

theorem handleAddTag_appends_witness:
  "''g2'' \<notin> set (map id_t (tags (snd (handleAddTag ''g1'' ''home'' initial_state)))) \<and>
   distinct (map id_t (tags (snd (handleAddTag ''g1'' ''home'' initial_state)))) \<and>
   distinct (map id_t (tags (snd (handleAddTag ''g2'' ''work''
     (snd (handleAddTag ''g1'' ''home'' initial_state)))))) \<and>
   id_t (hd (tags (snd (handleAddTag ''g1'' ''home'' initial_state)))) \<noteq>
     id_t (fst (handleAddTag ''g2'' ''work'' (snd (handleAddTag ''g1'' ''home'' initial_state)))) \<and>
   tags (snd (handleAddTag ''g2'' ''work'' (snd (handleAddTag ''g1'' ''home'' initial_state)))) =
     [\<lparr>id_t = ''g1'', name_t = ''home''\<rparr>, \<lparr>id_t = ''g2'', name_t = ''work''\<rparr>]"
  using handleAddTag_appends
    [of "''g2''" "''work''" "snd (handleAddTag ''g1'' ''home'' initial_state)"]
  by (simp add: handleAddTag_def initial_state_def Let_def)

text \<open>
  The claim as written fails when the generator returns an identifier that is in use: the
  new tag is appended all the same, and two tags share the identifier.
\<close>

theorem handleAddTag_counterexample:
  "id_t (fst (handleAddTag ''g1'' ''work'' (snd (handleAddTag ''g1'' ''home'' initial_state)))) =
     id_t (hd (tags (snd (handleAddTag ''g1'' ''home'' initial_state)))) \<and>
   tags (snd (handleAddTag ''g1'' ''work'' (snd (handleAddTag ''g1'' ''home'' initial_state)))) =
     [\<lparr>id_t = ''g1'', name_t = ''home''\<rparr>, \<lparr>id_t = ''g1'', name_t = ''work''\<rparr>] \<and>
   \<not> distinct (map id_t (tags (snd (handleAddTag ''g1'' ''work''
     (snd (handleAddTag ''g1'' ''home'' initial_state))))))"
  by (simp add: handleAddTag_def initial_state_def Let_def)

section \<open>Frame conditions\<close>

text \<open>
  C10. Creating, saving and deleting a note leave the tags collection, the active tag filter
  and the search term as they were; creating a tag leaves the notes collection, the active
  note, the active tag filter and the search term as they were.
\<close>

theorem handlers_touch_one_collection:
  "tags (handleAddNote uuid now1 now2 s) = tags s \<and>
   activeTagId (handleAddNote uuid now1 now2 s) = activeTagId s \<and>
   searchTerm (handleAddNote uuid now1 now2 s) = searchTerm s \<and>
   tags (handleSaveNote u s) = tags s \<and>
   activeTagId (handleSaveNote u s) = activeTagId s \<and>
   searchTerm (handleSaveNote u s) = searchTerm s \<and>
   tags (handleDeleteNote noteId s) = tags s \<and>
   activeTagId (handleDeleteNote noteId s) = activeTagId s \<and>
   searchTerm (handleDeleteNote noteId s) = searchTerm s \<and>
   notes (snd (handleAddTag uuid' tagName s)) = notes s \<and>
   activeNoteId (snd (handleAddTag uuid' tagName s)) = activeNoteId s \<and>
   activeTagId (snd (handleAddTag uuid' tagName s)) = activeTagId s \<and>
   searchTerm (snd (handleAddTag uuid' tagName s)) = searchTerm s"
  by (simp add: handleAddNote_def handleSaveNote_def handleDeleteNote_def handleAddTag_def
      Let_def)

section \<open>Properties of the view\<close>

lemma includes_str_iff: "includes_str t q \<longleftrightarrow> (\<exists>p r. t = p @ q @ r)"
proof (induction t)
  case Nil
  then show ?case by auto
next
  case (Cons c cs)
  show ?case
  proof
    assume "includes_str (c # cs) q"
    then consider "take (length q) (c # cs) = q" | "includes_str cs q" by auto
    then show "\<exists>p r. c # cs = p @ q @ r"
    proof cases
      case 1
      then have "c # cs = [] @ q @ drop (length q) (c # cs)"
        by (metis append_Nil append_take_drop_id)
      then show ?thesis by blast
    next
      case 2
      then obtain p r where "cs = p @ q @ r" using Cons.IH by blast
      then have "c # cs = (c # p) @ q @ r" by simp
      then show ?thesis by blast
    qed
  next
    assume "\<exists>p r. c # cs = p @ q @ r"
    then obtain p r where e: "c # cs = p @ q @ r" by blast
    show "includes_str (c # cs) q"
    proof (cases p)
      case Nil
      with e have "take (length q) (c # cs) = q" by simp
      then show ?thesis by simp
    next
      case (Cons d p')
      with e have "cs = p' @ q @ r" by simp
      then have "includes_str cs q" using Cons.IH by blast
      then show ?thesis by simp
    qed
  qed
qed


lemma keepNote_in_view: "keepNote a q n = in_view a q n"
  by (cases a) (auto simp: keepNote_def in_view_def ci_substring_def includes_str_iff)

lemma mset_insert_sorted: "mset (insert_sorted c x ys) = add_mset x (mset ys)"
  by (induction ys) auto

lemma mset_array_sort: "mset (array_sort c xs) = mset xs"
  by (induction xs) (auto simp: mset_insert_sorted)

lemma set_array_sort: "set (array_sort c xs) = set xs"
  by (metis mset_array_sort set_mset_mset)

lemma same_time_compare:
  "getTime (updatedAt x) = getTime (updatedAt y) \<Longrightarrow> sortCompare (compareFn getTime) x y = 0"
  by (auto simp: sortCompare_def compareFn_def split: option.splits)

lemma filter_insert_sorted:
  "filter (\<lambda>n. getTime (updatedAt n) = t) (insert_sorted (sortCompare (compareFn getTime)) x ys) =
   (if getTime (updatedAt x) = t then [x] else []) @ filter (\<lambda>n. getTime (updatedAt n) = t) ys"
proof (induction ys)
  case Nil
  show ?case by simp
next
  case (Cons y ys)
  show ?case
  proof (cases "sortCompare (compareFn getTime) x y \<le> 0")
    case True
    then show ?thesis by simp
  next
    case False
    then have "getTime (updatedAt x) \<noteq> getTime (updatedAt y)"
      using same_time_compare [of getTime x y] by auto
    with False Cons.IH show ?thesis by auto
  qed
qed

lemma filter_array_sort:
  "filter (\<lambda>n. getTime (updatedAt n) = t) (array_sort (sortCompare (compareFn getTime)) xs) =
   filter (\<lambda>n. getTime (updatedAt n) = t) xs"
  by (induction xs) (auto simp: filter_insert_sorted)

lemma newer_or_same_trans:
  "newer_or_same g x y \<Longrightarrow> newer_or_same g y z \<Longrightarrow> newer_or_same g x z"
  by (auto simp: newer_or_same_def)

lemma compare_le_newer:
  "g (updatedAt x) \<noteq> None \<Longrightarrow> g (updatedAt y) \<noteq> None \<Longrightarrow>
   (sortCompare (compareFn g) x y \<le> 0) = newer_or_same g x y"
  by (auto simp: sortCompare_def compareFn_def newer_or_same_def)

lemma compare_gt_newer:
  "g (updatedAt x) \<noteq> None \<Longrightarrow> g (updatedAt y) \<noteq> None \<Longrightarrow>
   \<not> sortCompare (compareFn g) x y \<le> 0 \<Longrightarrow> newer_or_same g y x"
  by (auto simp: sortCompare_def compareFn_def newer_or_same_def)

lemma set_insert_sorted: "set (insert_sorted c x ys) = insert x (set ys)"
  by (metis mset_insert_sorted set_mset_add_mset_insert set_mset_mset)

lemma sorted_insert_sorted:
  assumes "g (updatedAt x) \<noteq> None" and "\<forall>y \<in> set ys. g (updatedAt y) \<noteq> None"
    and "sorted_wrt (newer_or_same g) ys"
  shows "sorted_wrt (newer_or_same g) (insert_sorted (sortCompare (compareFn g)) x ys)"
  using assms(2,3)
proof (induction ys)
  case Nil
  show ?case by simp
next
  case (Cons y ys)
  have vy: "g (updatedAt y) \<noteq> None" using Cons.prems(1) by simp
  show ?case
  proof (cases "sortCompare (compareFn g) x y \<le> 0")
    case True
    then have xy: "newer_or_same g x y" using compare_le_newer [OF assms(1) vy] by simp
    have "\<forall>z \<in> set ys. newer_or_same g x z"
      using Cons.prems(2) xy newer_or_same_trans by auto
    with True xy Cons.prems(2) show ?thesis by simp
  next
    case False
    then have yx: "newer_or_same g y x" using compare_gt_newer [OF assms(1) vy] by simp
    have "sorted_wrt (newer_or_same g) (insert_sorted (sortCompare (compareFn g)) x ys)"
      using Cons by simp
    with False yx Cons.prems(2) show ?thesis by (simp add: set_insert_sorted)
  qed
qed

lemma sorted_array_sort:
  "\<forall>x \<in> set xs. g (updatedAt x) \<noteq> None \<Longrightarrow>
   sorted_wrt (newer_or_same g) (array_sort (sortCompare (compareFn g)) xs)"
  by (induction xs) (simp_all add: sorted_insert_sorted set_array_sort)

text \<open>
  C1, as amended. For every notes collection, tag filter and search term, whatever the engine
  reads from the date texts: the view holds exactly the notes of the collection that are
  \<open>in_view\<close>, each as often as the collection does. When every note that is in view carries
  a valid date, the view is ordered by \<open>updatedAt\<close> descending, and for every time value the
  notes with that value stand in the view in the order they have in the collection.
\<close>

theorem filteredNotes_view:
  "mset (filteredNotes getTime ns a q) = mset (filter (in_view a q) ns) \<and>
   ((\<forall>n \<in> set ns. in_view a q n \<longrightarrow> getTime (updatedAt n) \<noteq> None) \<longrightarrow>
      sorted_wrt (newer_or_same getTime) (filteredNotes getTime ns a q) \<and>
      (\<forall>t. filter (\<lambda>n. getTime (updatedAt n) = t) (filteredNotes getTime ns a q) =
           filter (\<lambda>n. getTime (updatedAt n) = t) (filter (in_view a q) ns)))"
proof -
  have k: "keepNote a q = in_view a q" by (rule ext) (rule keepNote_in_view)
  show ?thesis
    unfolding filteredNotes_def k
    by (simp add: mset_array_sort filter_array_sort sorted_array_sort)
qed

theorem filteredNotes_view_witness:
  "map_of [(''2024-01-01'', 1704067200000 :: int), (''2024-01-03'', 1704240000000)]
     (updatedAt \<lparr>id_n = ''a'', title = ''Meeting notes'', content = ''x'', tags_n = [''t1''],
          createdAt = ''2024-01-01'', updatedAt = ''2024-01-01''\<rparr>) \<noteq> None \<and>
   map_of [(''2024-01-01'', 1704067200000 :: int), (''2024-01-03'', 1704240000000)]
     (updatedAt \<lparr>id_n = ''b'', title = ''Plan'', content = ''next MEETING'', tags_n = [''t1'', ''t2''],
          createdAt = ''2024-01-01'', updatedAt = ''2024-01-03''\<rparr>) \<noteq> None \<and>
   map_of [(''2024-01-01'', 1704067200000 :: int), (''2024-01-03'', 1704240000000)]
     (updatedAt \<lparr>id_n = ''e'', title = ''Meeting room'', content = [], tags_n = [''t1''],
          createdAt = ''2024-01-02'', updatedAt = ''2024-01-03''\<rparr>) \<noteq> None \<and>
   sorted_wrt
     (newer_or_same (map_of [(''2024-01-01'', 1704067200000 :: int), (''2024-01-03'', 1704240000000)]))
     (filteredNotes (map_of [(''2024-01-01'', 1704067200000 :: int), (''2024-01-03'', 1704240000000)])
       [\<lparr>id_n = ''a'', title = ''Meeting notes'', content = ''x'', tags_n = [''t1''],
          createdAt = ''2024-01-01'', updatedAt = ''2024-01-01''\<rparr>,
        \<lparr>id_n = ''b'', title = ''Plan'', content = ''next MEETING'', tags_n = [''t1'', ''t2''],
          createdAt = ''2024-01-01'', updatedAt = ''2024-01-03''\<rparr>,
        \<lparr>id_n = ''c'', title = ''Meeting'', content = [], tags_n = [''t2''],
          createdAt = ''2024-01-01'', updatedAt = ''garbled''\<rparr>,
        \<lparr>id_n = ''d'', title = ''Shop'', content = ''milk'', tags_n = [''t1''],
          createdAt = ''2024-01-01'', updatedAt = ''2024-01-03''\<rparr>,
        \<lparr>id_n = ''e'', title = ''Meeting room'', content = [], tags_n = [''t1''],
          createdAt = ''2024-01-02'', updatedAt = ''2024-01-03''\<rparr>]
       (Some ''t1'') ''meeting'') \<and>
   filter (\<lambda>n. (map_of [(''2024-01-01'', 1704067200000 :: int), (''2024-01-03'', 1704240000000)]) (updatedAt n) = Some 1704240000000)
     (filteredNotes (map_of [(''2024-01-01'', 1704067200000 :: int), (''2024-01-03'', 1704240000000)])
       [\<lparr>id_n = ''a'', title = ''Meeting notes'', content = ''x'', tags_n = [''t1''],
          createdAt = ''2024-01-01'', updatedAt = ''2024-01-01''\<rparr>,
        \<lparr>id_n = ''b'', title = ''Plan'', content = ''next MEETING'', tags_n = [''t1'', ''t2''],
          createdAt = ''2024-01-01'', updatedAt = ''2024-01-03''\<rparr>,
        \<lparr>id_n = ''c'', title = ''Meeting'', content = [], tags_n = [''t2''],
          createdAt = ''2024-01-01'', updatedAt = ''garbled''\<rparr>,
        \<lparr>id_n = ''d'', title = ''Shop'', content = ''milk'', tags_n = [''t1''],
          createdAt = ''2024-01-01'', updatedAt = ''2024-01-03''\<rparr>,
        \<lparr>id_n = ''e'', title = ''Meeting room'', content = [], tags_n = [''t1''],
          createdAt = ''2024-01-02'', updatedAt = ''2024-01-03''\<rparr>]
       (Some ''t1'') ''meeting'') =
     [\<lparr>id_n = ''b'', title = ''Plan'', content = ''next MEETING'', tags_n = [''t1'', ''t2''],
          createdAt = ''2024-01-01'', updatedAt = ''2024-01-03''\<rparr>,
      \<lparr>id_n = ''e'', title = ''Meeting room'', content = [], tags_n = [''t1''],
          createdAt = ''2024-01-02'', updatedAt = ''2024-01-03''\<rparr>] \<and>
   filteredNotes (map_of [(''2024-01-01'', 1704067200000 :: int), (''2024-01-03'', 1704240000000)])
       [\<lparr>id_n = ''a'', title = ''Meeting notes'', content = ''x'', tags_n = [''t1''],
          createdAt = ''2024-01-01'', updatedAt = ''2024-01-01''\<rparr>,
        \<lparr>id_n = ''b'', title = ''Plan'', content = ''next MEETING'', tags_n = [''t1'', ''t2''],
          createdAt = ''2024-01-01'', updatedAt = ''2024-01-03''\<rparr>,
        \<lparr>id_n = ''c'', title = ''Meeting'', content = [], tags_n = [''t2''],
          createdAt = ''2024-01-01'', updatedAt = ''garbled''\<rparr>,
        \<lparr>id_n = ''d'', title = ''Shop'', content = ''milk'', tags_n = [''t1''],
          createdAt = ''2024-01-01'', updatedAt = ''2024-01-03''\<rparr>,
        \<lparr>id_n = ''e'', title = ''Meeting room'', content = [], tags_n = [''t1''],
          createdAt = ''2024-01-02'', updatedAt = ''2024-01-03''\<rparr>]
       (Some ''t1'') ''meeting'' =
     [\<lparr>id_n = ''b'', title = ''Plan'', content = ''next MEETING'', tags_n = [''t1'', ''t2''],
          createdAt = ''2024-01-01'', updatedAt = ''2024-01-03''\<rparr>,
      \<lparr>id_n = ''e'', title = ''Meeting room'', content = [], tags_n = [''t1''],
          createdAt = ''2024-01-02'', updatedAt = ''2024-01-03''\<rparr>,
      \<lparr>id_n = ''a'', title = ''Meeting notes'', content = ''x'', tags_n = [''t1''],
          createdAt = ''2024-01-01'', updatedAt = ''2024-01-01''\<rparr>]"
  (is "?va \<and> ?vb \<and> ?ve \<and> sorted_wrt (newer_or_same ?g) (filteredNotes ?g ?ns ?a ?q) \<and>
       ?stable \<and> ?res")
proof -
  have keep: "filter (keepNote ?a ?q) ?ns = [?ns ! 0, ?ns ! 1, ?ns ! 4]"
    by (simp add: keepNote_def toLowerCase_def lower_char_def)
  have "\<forall>n \<in> set (filter (keepNote ?a ?q) ?ns). ?g (updatedAt n) \<noteq> None"
    unfolding keep by simp
  then have valid: "\<forall>n \<in> set ?ns. in_view ?a ?q n \<longrightarrow> ?g (updatedAt n) \<noteq> None"
    unfolding set_filter keepNote_in_view by blast
  with filteredNotes_view [of ?g ?ns ?a ?q]
  have "sorted_wrt (newer_or_same ?g) (filteredNotes ?g ?ns ?a ?q)" by blast
  moreover have res: ?res
    unfolding filteredNotes_def keep by (simp add: sortCompare_def compareFn_def)
  moreover have ?stable
    unfolding res by simp
  ultimately show ?thesis by simp
qed

text \<open>
  The same with a Latin-1 capital: the title begins with the code unit \<open>0xC9\<close> and the search
  term with \<open>0xE9\<close>, and the note is kept.
\<close>

lemma keepNote_latin1:
  "keepNote None [CHR 0xE9, CHR ''C'', CHR ''O'', CHR ''L'', CHR ''E'']
     \<lparr>id_n = ''a'', title = [CHR 0xC9, CHR ''c'', CHR ''o'', CHR ''l'', CHR ''e''], content = [],
       tags_n = [], createdAt = ''2024-01-01'', updatedAt = ''2024-01-01''\<rparr>"
  by (simp add: keepNote_def toLowerCase_def lower_char_def)

text \<open>
  The claim as written fails twice. With the empty string as the active tag filter (set
  through \<open>handleSelectTag\<close>) a note whose tag list does not hold the empty string is still in
  the view. And a note whose \<open>updatedAt\<close> is not a date compares as equal to every other note,
  so the note of 1 January stays before the note of 2 January.
\<close>

theorem filteredNotes_counterexample:
  "activeTagId (handleSelectTag (Some '''') initial_state) = Some '''' \<and>
   '''' \<notin> set (tags_n \<lparr>id_n = ''a'', title = ''A'', content = ''x'', tags_n = [''t1''],
        createdAt = ''2024-01-01'', updatedAt = ''2024-01-01''\<rparr>) \<and>
   filteredNotes (map_of [(''2024-01-01'', 1704067200000), (''2024-01-02'', 1704153600000)])
     [\<lparr>id_n = ''a'', title = ''A'', content = ''x'', tags_n = [''t1''],
        createdAt = ''2024-01-01'', updatedAt = ''2024-01-01''\<rparr>]
     (Some '''') '''' =
     [\<lparr>id_n = ''a'', title = ''A'', content = ''x'', tags_n = [''t1''],
        createdAt = ''2024-01-01'', updatedAt = ''2024-01-01''\<rparr>] \<and>
   filteredNotes (map_of [(''2024-01-01'', 1704067200000), (''2024-01-02'', 1704153600000)])
     [\<lparr>id_n = ''a'', title = ''A'', content = ''x'', tags_n = [],
        createdAt = ''2024-01-01'', updatedAt = ''2024-01-01''\<rparr>,
      \<lparr>id_n = ''b'', title = ''B'', content = ''y'', tags_n = [],
        createdAt = ''2024-01-01'', updatedAt = ''not a date''\<rparr>,
      \<lparr>id_n = ''c'', title = ''C'', content = ''z'', tags_n = [],
        createdAt = ''2024-01-02'', updatedAt = ''2024-01-02''\<rparr>]
     None '''' =
     [\<lparr>id_n = ''a'', title = ''A'', content = ''x'', tags_n = [],
        createdAt = ''2024-01-01'', updatedAt = ''2024-01-01''\<rparr>,
      \<lparr>id_n = ''b'', title = ''B'', content = ''y'', tags_n = [],
        createdAt = ''2024-01-01'', updatedAt = ''not a date''\<rparr>,
      \<lparr>id_n = ''c'', title = ''C'', content = ''z'', tags_n = [],
        createdAt = ''2024-01-02'', updatedAt = ''2024-01-02''\<rparr>] \<and>
   \<not> newer_or_same (map_of [(''2024-01-01'', 1704067200000), (''2024-01-02'', 1704153600000)])
     \<lparr>id_n = ''a'', title = ''A'', content = ''x'', tags_n = [],
        createdAt = ''2024-01-01'', updatedAt = ''2024-01-01''\<rparr>
     \<lparr>id_n = ''c'', title = ''C'', content = ''z'', tags_n = [],
        createdAt = ''2024-01-02'', updatedAt = ''2024-01-02''\<rparr>"
  by (simp add: filteredNotes_def keepNote_def sortCompare_def compareFn_def
      handleSelectTag_def initial_state_def newer_or_same_def)

section \<open>Properties of the serialization\<close>

lemma control_char_parse:
  "parse_chars (quote_char (Char b0 b1 b2 b3 b4 False False False) @ t) =
   map_option (\<lambda>(s, r). (Char b0 b1 b2 b3 b4 False False False # s, r)) (parse_chars t)"
  by (cases b0; cases b1; cases b2; cases b3; cases b4)
     (simp_all add: quote_char_def unescape_def hex_digit_def code_unit_def hex_value_def)

lemma quote_char_parse:
  "parse_chars (quote_char c @ t) = map_option (\<lambda>(s, r). (c # s, r)) (parse_chars t)"
proof (cases "(of_char c :: nat) < 32")
  case False
  then show ?thesis
    by (auto simp: quote_char_def unescape_def split: option.splits)
next
  case True
  obtain b0 b1 b2 b3 b4 b5 b6 b7 where c: "c = Char b0 b1 b2 b3 b4 b5 b6 b7"
    by (cases c)
  from True have "\<not> b5 \<and> \<not> b6 \<and> \<not> b7"
    unfolding c by (auto simp: of_char_def)
  then show ?thesis unfolding c by (simp add: control_char_parse)
qed


lemma parse_chars_quoted:
  "parse_chars (concat (map quote_char s) @ CHR 0x22 # rest) = Some (s, rest)"
  by (induction s) (simp_all add: quote_char_parse)

lemma stringify_head:
  "\<exists>c t. JSON_stringify j = c # t \<and> \<not> is_ws c \<and> c \<noteq> CHR '']'' \<and> c \<noteq> CHR ''}''"
  by (cases j) (simp_all add: QuoteJSONString_def is_ws_def)

lemma parse_elements_join:
  assumes "\<And>x n rest. x \<in> set xs \<Longrightarrow> fuel x \<le> n \<Longrightarrow>
      parse_value n (JSON_stringify x @ rest) = Some (x, rest)"
    and "xs \<noteq> []" and "sum_list (map (\<lambda>x. Suc (fuel x)) xs) \<le> n"
  shows "parse_elements n (join (map JSON_stringify xs) @ CHR '']'' # rest) = Some (xs, rest)"
  using assms
proof (induction xs arbitrary: n)
  case Nil
  then show ?case by simp
next
  case (Cons x xs)
  from Cons.prems(3) obtain m where n: "n = Suc m" and fx: "fuel x \<le> m"
    and fxs: "sum_list (map (\<lambda>x. Suc (fuel x)) xs) \<le> m"
    by (cases n) auto
  have px: "parse_value m (JSON_stringify x @ r) = Some (x, r)" for r
    using Cons.prems(1) fx by simp
  note IH = Cons.IH and sub = Cons.prems(1)
  show ?case
  proof (cases xs)
    case Nil
    then show ?thesis using px [of "CHR '']'' # rest"] by (simp add: n is_ws_def)
  next
    case (Cons y ys)
    have "parse_elements m (join (map JSON_stringify xs) @ CHR '']'' # rest) = Some (xs, rest)"
    proof (rule IH)
      show "parse_value k (JSON_stringify z @ r) = Some (z, r)" if "z \<in> set xs" "fuel z \<le> k"
        for z k r
        using sub [of z k r] that by simp
    qed (use fxs Cons in simp_all)
    then show ?thesis
      using px [of "CHR '','' # join (map JSON_stringify xs) @ CHR '']'' # rest"] Cons
      by (simp add: n is_ws_def)
  qed
qed

lemma parse_members_join:
  assumes "\<And>k v n rest. (k, v) \<in> set ms \<Longrightarrow> fuel v \<le> n \<Longrightarrow>
      parse_value n (JSON_stringify v @ rest) = Some (v, rest)"
    and "ms \<noteq> []" and "sum_list (map (\<lambda>m. Suc (fuel (snd m))) ms) \<le> n"
  shows "parse_members n
      (join (map (\<lambda>(k, v). QuoteJSONString k @ CHR '':'' # JSON_stringify v) ms) @ CHR ''}'' # rest) =
    Some (ms, rest)"
  using assms
proof (induction ms arbitrary: n)
  case Nil
  then show ?case by simp
next
  case (Cons kv ms)
  obtain k v where kv: "kv = (k, v)" by (cases kv)
  from Cons.prems(3) obtain m where n: "n = Suc m" and fx: "fuel v \<le> m"
    and fxs: "sum_list (map (\<lambda>m. Suc (fuel (snd m))) ms) \<le> m"
    by (cases n) (auto simp: kv)
  have pv: "parse_value m (JSON_stringify v @ r) = Some (v, r)" for r
    using Cons.prems(1) [of k v] fx by (simp add: kv)
  have key: "skip_ws (QuoteJSONString k @ r) = CHR 0x22 # concat (map quote_char k) @ CHR 0x22 # r"
    for r
    by (simp add: QuoteJSONString_def is_ws_def)
  note IH = Cons.IH and sub = Cons.prems(1)
  show ?case
  proof (cases ms)
    case Nil
    then show ?thesis
      using pv [of "CHR ''}'' # rest"]
      by (simp add: n kv key parse_chars_quoted is_ws_def)
  next
    case (Cons y ys)
    have "parse_members m
        (join (map (\<lambda>(k, v). QuoteJSONString k @ CHR '':'' # JSON_stringify v) ms) @ CHR ''}'' # rest) =
      Some (ms, rest)"
    proof (rule IH)
      show "parse_value i (JSON_stringify z @ r) = Some (z, r)" if "(a, z) \<in> set ms" "fuel z \<le> i"
        for a z i r
        using sub [of a z i r] that by simp
    qed (use fxs Cons in simp_all)
    then show ?thesis
      using pv [of "CHR '','' #
          join (map (\<lambda>(k, v). QuoteJSONString k @ CHR '':'' # JSON_stringify v) ms) @ CHR ''}'' # rest"]
        Cons
      by (simp add: n kv key parse_chars_quoted is_ws_def)
  qed
qed

lemma parse_value_JSON_stringify:
  "fuel j \<le> n \<Longrightarrow> parse_value n (JSON_stringify j @ rest) = Some (j, rest)"
proof (induction j arbitrary: n rest)
  case (JString s)
  then obtain m where n: "n = Suc m" by (cases n) auto
  show ?case
    by (simp add: n QuoteJSONString_def is_ws_def parse_chars_quoted)
next
  case (JArray xs)
  then obtain m where n: "n = Suc m" and m: "sum_list (map (\<lambda>x. Suc (fuel x)) xs) \<le> m"
    by (cases n) auto
  show ?case
  proof (cases xs)
    case Nil
    then show ?thesis by (simp add: n is_ws_def)
  next
    case (Cons y ys)
    obtain c t where h: "JSON_stringify y = c # t" "\<not> is_ws c" "c \<noteq> CHR '']''"
      using stringify_head [of y] by blast
    have "parse_elements m (join (map JSON_stringify xs) @ CHR '']'' # rest) = Some (xs, rest)"
      using JArray.IH m Cons by (intro parse_elements_join) auto
    moreover have "\<exists>u. join (map JSON_stringify xs) @ CHR '']'' # rest = c # u"
      using Cons h by (cases ys) auto
    ultimately show ?thesis using h by (auto simp: n is_ws_def)
  qed
next
  case (JObject ms)
  then obtain m where n: "n = Suc m" and m: "sum_list (map (\<lambda>m. Suc (fuel (snd m))) ms) \<le> m"
    by (cases n) auto
  show ?case
  proof (cases ms)
    case Nil
    then show ?thesis by (simp add: n is_ws_def)
  next
    case (Cons y ys)
    have "parse_members m
        (join (map (\<lambda>(k, v). QuoteJSONString k @ CHR '':'' # JSON_stringify v) ms) @ CHR ''}'' # rest) =
      Some (ms, rest)"
    proof (intro parse_members_join)
      fix k v n rest
      assume "(k, v) \<in> set ms" "fuel v \<le> n"
      then show "parse_value n (JSON_stringify v @ rest) = Some (v, rest)"
        using JObject.IH [of "(k, v)" v] by simp
    qed (use m Cons in auto)
    moreover have "\<exists>u. join (map (\<lambda>(k, v). QuoteJSONString k @ CHR '':'' # JSON_stringify v) ms) @
        CHR ''}'' # rest = CHR 0x22 # u"
      using Cons by (cases y; cases ys) (auto simp: QuoteJSONString_def)
    ultimately show ?thesis by (auto simp: n is_ws_def)
  qed
qed


lemma length_join: "sum_list (map (\<lambda>y. Suc (length y)) ys) \<le> Suc (length (join ys))"
  by (induction ys rule: join.induct) simp_all

lemma fuel_le_length: "fuel j \<le> length (JSON_stringify j)"
proof (induction j)
  case (JString s)
  show ?case by (simp add: QuoteJSONString_def)
next
  case (JArray xs)
  have "sum_list (map (\<lambda>x. Suc (fuel x)) xs) \<le> sum_list (map (\<lambda>y. Suc (length y)) (map JSON_stringify xs))"
    unfolding map_map comp_def using JArray.IH by (intro sum_list_mono) simp
  also have "\<dots> \<le> Suc (length (join (map JSON_stringify xs)))" by (rule length_join)
  finally show ?case by simp
next
  case (JObject ms)
  have "sum_list (map (\<lambda>m. Suc (fuel (snd m))) ms) \<le>
      sum_list (map (\<lambda>y. Suc (length y))
        (map (\<lambda>(k, v). QuoteJSONString k @ CHR '':'' # JSON_stringify v) ms))"
    unfolding map_map comp_def
  proof (intro sum_list_mono)
    fix m assume m: "m \<in> set ms"
    obtain k v where kv: "m = (k, v)" by (cases m)
    have "fuel v \<le> length (JSON_stringify v)"
      using JObject.IH [of m v] m by (simp add: kv)
    then show "Suc (fuel (snd m)) \<le>
        Suc (length (case m of (k, v) \<Rightarrow> QuoteJSONString k @ CHR '':'' # JSON_stringify v))"
      by (simp add: kv)
  qed
  also have "\<dots> \<le> Suc (length (join
      (map (\<lambda>(k, v). QuoteJSONString k @ CHR '':'' # JSON_stringify v) ms)))"
    by (rule length_join)
  finally show ?case by simp
qed

lemma JSON_parse_JSON_stringify: "JSON_parse (JSON_stringify j) = Inr j"
proof -
  have "fuel j \<le> Suc (length (JSON_stringify j))"
    using fuel_le_length [of j] by simp
  then have "parse_value (Suc (length (JSON_stringify j))) (JSON_stringify j @ []) = Some (j, [])"
    by (rule parse_value_JSON_stringify)
  then show ?thesis by (simp add: JSON_parse_def)
qed

lemma those_strings: "those (map (as_string \<circ> JString) ts) = Some ts"
  by (induction ts) simp_all

lemma as_note_note_json: "as_note (note_json n) = Some n"
  by (simp add: note_json_def property_def those_strings)

lemma as_tag_tag_json: "as_tag (tag_json t) = Some t"
  by (simp add: tag_json_def property_def)

lemma those_notes: "those (map (as_note \<circ> note_json) ns) = Some ns"
  by (induction ns) (simp_all add: as_note_note_json)

lemma those_tags: "those (map (as_tag \<circ> tag_json) ts) = Some ts"
  by (induction ts) (simp_all add: as_tag_tag_json)

text \<open>
  C8. Parsing what \<open>JSON.stringify\<close> wrote gives the value back, for every value made of
  strings, arrays and objects. So what the load effect parses from the text the notes save
  effect wrote is the JSON value of the notes collection, and read at the type \<open>Note[]\<close> it is
  the collection itself; likewise for the tags.
\<close>

theorem stringify_then_parse:
  "JSON_parse (JSON_stringify j) = Inr j \<and>
   JSON_parse (stringifyNotes ns) = Inr (JArray (map note_json ns)) \<and>
   as_array as_note (JArray (map note_json ns)) = Some ns \<and>
   JSON_parse (stringifyTags ts) = Inr (JArray (map tag_json ts)) \<and>
   as_array as_tag (JArray (map tag_json ts)) = Some ts"
proof -
  have "JSON_parse (stringifyNotes ns) = Inr (JArray (map note_json ns))"
    unfolding stringifyNotes_def by (rule JSON_parse_JSON_stringify)
  moreover have "JSON_parse (stringifyTags ts) = Inr (JArray (map tag_json ts))"
    unfolding stringifyTags_def by (rule JSON_parse_JSON_stringify)
  moreover have "as_array as_note (JArray (map note_json ns)) = Some ns"
    by (simp add: those_notes)
  moreover have "as_array as_tag (JArray (map tag_json ts)) = Some ts"
    by (simp add: those_tags)
  ultimately show ?thesis
    using JSON_parse_JSON_stringify [of j] by blast
qed

section \<open>Properties of the load effect\<close>

text \<open>
  C6, as amended. Start from the initial state, with anything in the store. The load effect
  always marks initialization complete and never writes to the store. When the first or the
  second read throws, when the notes text does not parse, or when there is no notes text and
  the tags text does not parse, the error is logged and both collections are empty. When the
  notes text parses and the tags text does not, the error is logged, the tags collection is
  empty and the notes collection is the parsed one.
\<close>

theorem loadEffect_failure:
  fixes parseNotes parseTags fault1 fault2 w e tn tt ns
  defines "w0 \<equiv> w\<lparr>app := initial_state\<rparr>"
  defines "w' \<equiv> loadEffect parseNotes parseTags fault1 fault2 w0"
  defines "logged \<equiv> (console w' = console w @ [(''Failed to load data from localStorage'', e)])"
  shows
  "isInitialized (app w') \<and> localStorage w' = localStorage w \<and>
   (fault1 = Some e \<longrightarrow> logged \<and> notes (app w') = [] \<and> tags (app w') = []) \<and>
   (fault1 = None \<and> fault2 = Some e \<longrightarrow> logged \<and> notes (app w') = [] \<and> tags (app w') = []) \<and>
   (fault1 = None \<and> fault2 = None \<and> localStorage w ''notes_data'' = Some tn \<and> tn \<noteq> [] \<and>
    parseNotes tn = Inl e \<longrightarrow> logged \<and> notes (app w') = [] \<and> tags (app w') = []) \<and>
   (fault1 = None \<and> fault2 = None \<and> \<not> truthy (localStorage w ''notes_data'') \<and>
    localStorage w ''tags_data'' = Some tt \<and> tt \<noteq> [] \<and> parseTags tt = Inl e \<longrightarrow>
      logged \<and> notes (app w') = [] \<and> tags (app w') = []) \<and>
   (fault1 = None \<and> fault2 = None \<and> localStorage w ''notes_data'' = Some tn \<and> tn \<noteq> [] \<and>
    parseNotes tn = Inr ns \<and>
    localStorage w ''tags_data'' = Some tt \<and> tt \<noteq> [] \<and> parseTags tt = Inl e \<longrightarrow>
      logged \<and> notes (app w') = ns \<and> tags (app w') = [])"
  unfolding w'_def w0_def logged_def
  by (cases "localStorage w ''notes_data''")
     (auto simp: loadEffect_def loadTry_def getItem_def initial_state_def Let_def
           split: option.splits sum.splits)

theorem loadEffect_failure_witness:
  "JSON_parse ''{oops'' = Inl SyntaxError \<and>
   JSON_parse ''[]'' = Inr (JArray []) \<and>
   console (loadEffect (\<lambda>t. map_sum id (\<lambda>j. the (as_array as_note j)) (JSON_parse t))
      (\<lambda>t. map_sum id (\<lambda>j. the (as_array as_tag j)) (JSON_parse t)) (Some SecurityError) None
      \<lparr>app = initial_state, localStorage = Map.empty, console = []\<rparr>) =
     [(''Failed to load data from localStorage'', SecurityError)] \<and>
   notes (app (loadEffect (\<lambda>t. map_sum id (\<lambda>j. the (as_array as_note j)) (JSON_parse t))
      (\<lambda>t. map_sum id (\<lambda>j. the (as_array as_tag j)) (JSON_parse t)) (Some SecurityError) None
      \<lparr>app = initial_state, localStorage = Map.empty, console = []\<rparr>)) = [] \<and>
   tags (app (loadEffect (\<lambda>t. map_sum id (\<lambda>j. the (as_array as_note j)) (JSON_parse t))
      (\<lambda>t. map_sum id (\<lambda>j. the (as_array as_tag j)) (JSON_parse t)) (Some SecurityError) None
      \<lparr>app = initial_state, localStorage = Map.empty, console = []\<rparr>)) = [] \<and>
   isInitialized (app (loadEffect (\<lambda>t. map_sum id (\<lambda>j. the (as_array as_note j)) (JSON_parse t))
      (\<lambda>t. map_sum id (\<lambda>j. the (as_array as_tag j)) (JSON_parse t)) (Some SecurityError) None
      \<lparr>app = initial_state, localStorage = Map.empty, console = []\<rparr>)) \<and>
   console (loadEffect (\<lambda>t. map_sum id (\<lambda>j. the (as_array as_note j)) (JSON_parse t))
      (\<lambda>t. map_sum id (\<lambda>j. the (as_array as_tag j)) (JSON_parse t)) None (Some SecurityError)
      \<lparr>app = initial_state, localStorage = Map.empty, console = []\<rparr>) =
     [(''Failed to load data from localStorage'', SecurityError)] \<and>
   notes (app (loadEffect (\<lambda>t. map_sum id (\<lambda>j. the (as_array as_note j)) (JSON_parse t))
      (\<lambda>t. map_sum id (\<lambda>j. the (as_array as_tag j)) (JSON_parse t)) None (Some SecurityError)
      \<lparr>app = initial_state, localStorage = Map.empty, console = []\<rparr>)) = [] \<and>
   tags (app (loadEffect (\<lambda>t. map_sum id (\<lambda>j. the (as_array as_note j)) (JSON_parse t))
      (\<lambda>t. map_sum id (\<lambda>j. the (as_array as_tag j)) (JSON_parse t)) None (Some SecurityError)
      \<lparr>app = initial_state, localStorage = Map.empty, console = []\<rparr>)) = [] \<and>
   isInitialized (app (loadEffect (\<lambda>t. map_sum id (\<lambda>j. the (as_array as_note j)) (JSON_parse t))
      (\<lambda>t. map_sum id (\<lambda>j. the (as_array as_tag j)) (JSON_parse t)) None (Some SecurityError)
      \<lparr>app = initial_state, localStorage = Map.empty, console = []\<rparr>)) \<and>
   console (loadEffect (\<lambda>t. map_sum id (\<lambda>j. the (as_array as_note j)) (JSON_parse t))
      (\<lambda>t. map_sum id (\<lambda>j. the (as_array as_tag j)) (JSON_parse t)) None None
      \<lparr>app = initial_state, localStorage = [''notes_data'' \<mapsto> ''{oops''], console = []\<rparr>) =
     [(''Failed to load data from localStorage'', SyntaxError)] \<and>
   notes (app (loadEffect (\<lambda>t. map_sum id (\<lambda>j. the (as_array as_note j)) (JSON_parse t))
      (\<lambda>t. map_sum id (\<lambda>j. the (as_array as_tag j)) (JSON_parse t)) None None
      \<lparr>app = initial_state, localStorage = [''notes_data'' \<mapsto> ''{oops''], console = []\<rparr>)) = [] \<and>
   tags (app (loadEffect (\<lambda>t. map_sum id (\<lambda>j. the (as_array as_note j)) (JSON_parse t))
      (\<lambda>t. map_sum id (\<lambda>j. the (as_array as_tag j)) (JSON_parse t)) None None
      \<lparr>app = initial_state, localStorage = [''notes_data'' \<mapsto> ''{oops''], console = []\<rparr>)) = [] \<and>
   isInitialized (app (loadEffect (\<lambda>t. map_sum id (\<lambda>j. the (as_array as_note j)) (JSON_parse t))
      (\<lambda>t. map_sum id (\<lambda>j. the (as_array as_tag j)) (JSON_parse t)) None None
      \<lparr>app = initial_state, localStorage = [''notes_data'' \<mapsto> ''{oops''], console = []\<rparr>)) \<and>
   console (loadEffect (\<lambda>t. map_sum id (\<lambda>j. the (as_array as_note j)) (JSON_parse t))
      (\<lambda>t. map_sum id (\<lambda>j. the (as_array as_tag j)) (JSON_parse t)) None None
      \<lparr>app = initial_state, localStorage = [''tags_data'' \<mapsto> ''{oops''], console = []\<rparr>) =
     [(''Failed to load data from localStorage'', SyntaxError)] \<and>
   notes (app (loadEffect (\<lambda>t. map_sum id (\<lambda>j. the (as_array as_note j)) (JSON_parse t))
      (\<lambda>t. map_sum id (\<lambda>j. the (as_array as_tag j)) (JSON_parse t)) None None
      \<lparr>app = initial_state, localStorage = [''tags_data'' \<mapsto> ''{oops''], console = []\<rparr>)) = [] \<and>
   tags (app (loadEffect (\<lambda>t. map_sum id (\<lambda>j. the (as_array as_note j)) (JSON_parse t))
      (\<lambda>t. map_sum id (\<lambda>j. the (as_array as_tag j)) (JSON_parse t)) None None
      \<lparr>app = initial_state, localStorage = [''tags_data'' \<mapsto> ''{oops''], console = []\<rparr>)) = [] \<and>
   isInitialized (app (loadEffect (\<lambda>t. map_sum id (\<lambda>j. the (as_array as_note j)) (JSON_parse t))
      (\<lambda>t. map_sum id (\<lambda>j. the (as_array as_tag j)) (JSON_parse t)) None None
      \<lparr>app = initial_state, localStorage = [''tags_data'' \<mapsto> ''{oops''], console = []\<rparr>)) \<and>
   console (loadEffect (\<lambda>t. map_sum id (\<lambda>j. the (as_array as_note j)) (JSON_parse t))
      (\<lambda>t. map_sum id (\<lambda>j. the (as_array as_tag j)) (JSON_parse t)) None None
      \<lparr>app = initial_state, localStorage = [''notes_data'' \<mapsto> ''[]'', ''tags_data'' \<mapsto> ''{oops''], console = []\<rparr>) =
     [(''Failed to load data from localStorage'', SyntaxError)] \<and>
   notes (app (loadEffect (\<lambda>t. map_sum id (\<lambda>j. the (as_array as_note j)) (JSON_parse t))
      (\<lambda>t. map_sum id (\<lambda>j. the (as_array as_tag j)) (JSON_parse t)) None None
      \<lparr>app = initial_state, localStorage = [''notes_data'' \<mapsto> ''[]'', ''tags_data'' \<mapsto> ''{oops''], console = []\<rparr>)) = [] \<and>
   tags (app (loadEffect (\<lambda>t. map_sum id (\<lambda>j. the (as_array as_note j)) (JSON_parse t))
      (\<lambda>t. map_sum id (\<lambda>j. the (as_array as_tag j)) (JSON_parse t)) None None
      \<lparr>app = initial_state, localStorage = [''notes_data'' \<mapsto> ''[]'', ''tags_data'' \<mapsto> ''{oops''], console = []\<rparr>)) = [] \<and>
   isInitialized (app (loadEffect (\<lambda>t. map_sum id (\<lambda>j. the (as_array as_note j)) (JSON_parse t))
      (\<lambda>t. map_sum id (\<lambda>j. the (as_array as_tag j)) (JSON_parse t)) None None
      \<lparr>app = initial_state, localStorage = [''notes_data'' \<mapsto> ''[]'', ''tags_data'' \<mapsto> ''{oops''], console = []\<rparr>))"
proof -
  have bad: "JSON_parse ''{oops'' = Inl SyntaxError"
    by (simp add: JSON_parse_def is_ws_def)
  have good: "JSON_parse ''[]'' = Inr (JArray [])"
    by (simp add: JSON_parse_def is_ws_def)
  show ?thesis
    using
      loadEffect_failure [of "\<lambda>t. map_sum id (\<lambda>j. the (as_array as_note j)) (JSON_parse t)"
        "\<lambda>t. map_sum id (\<lambda>j. the (as_array as_tag j)) (JSON_parse t)" "Some SecurityError" "None"
        "\<lparr>app = initial_state, localStorage = Map.empty, console = []\<rparr>" SecurityError]
      loadEffect_failure [of "\<lambda>t. map_sum id (\<lambda>j. the (as_array as_note j)) (JSON_parse t)"
        "\<lambda>t. map_sum id (\<lambda>j. the (as_array as_tag j)) (JSON_parse t)" "None" "Some SecurityError"
        "\<lparr>app = initial_state, localStorage = Map.empty, console = []\<rparr>" SecurityError]
      loadEffect_failure [of "\<lambda>t. map_sum id (\<lambda>j. the (as_array as_note j)) (JSON_parse t)"
        "\<lambda>t. map_sum id (\<lambda>j. the (as_array as_tag j)) (JSON_parse t)" "None" "None"
        "\<lparr>app = initial_state, localStorage = [''notes_data'' \<mapsto> ''{oops''], console = []\<rparr>" SyntaxError "''{oops''"]
      loadEffect_failure [of "\<lambda>t. map_sum id (\<lambda>j. the (as_array as_note j)) (JSON_parse t)"
        "\<lambda>t. map_sum id (\<lambda>j. the (as_array as_tag j)) (JSON_parse t)" "None" "None"
        "\<lparr>app = initial_state, localStorage = [''tags_data'' \<mapsto> ''{oops''], console = []\<rparr>" SyntaxError _ "''{oops''"]
      loadEffect_failure [of "\<lambda>t. map_sum id (\<lambda>j. the (as_array as_note j)) (JSON_parse t)"
        "\<lambda>t. map_sum id (\<lambda>j. the (as_array as_tag j)) (JSON_parse t)" "None" "None"
        "\<lparr>app = initial_state, localStorage = [''notes_data'' \<mapsto> ''[]'', ''tags_data'' \<mapsto> ''{oops''], console = []\<rparr>" SyntaxError "''[]''" "''{oops''" "[]"]
    by (simp add: bad good initial_state_def)
qed

text \<open>
  The claim as written fails when the notes were stored well and the tags text is broken:
  \<open>setNotes\<close> has run before \<open>JSON.parse(storedTags)\<close> throws, so the notes collection does not
  fall back to empty.
\<close>

theorem loadEffect_counterexample:
  "JSON_parse (stringifyNotes [\<lparr>id_n = ''a'', title = ''A'', content = ''x'', tags_n = [''t1''],
        createdAt = ''2024-01-01'', updatedAt = ''2024-01-01''\<rparr>]) =
     Inr (JArray [note_json \<lparr>id_n = ''a'', title = ''A'', content = ''x'', tags_n = [''t1''],
        createdAt = ''2024-01-01'', updatedAt = ''2024-01-01''\<rparr>]) \<and>
   JSON_parse ''{oops'' = Inl SyntaxError \<and>
   notes (app (loadEffect (\<lambda>t. map_sum id (\<lambda>j. the (as_array as_note j)) (JSON_parse t))
      (\<lambda>t. map_sum id (\<lambda>j. the (as_array as_tag j)) (JSON_parse t)) None None
      \<lparr>app = initial_state,
        localStorage = [''notes_data'' \<mapsto> stringifyNotes
          [\<lparr>id_n = ''a'', title = ''A'', content = ''x'', tags_n = [''t1''],
            createdAt = ''2024-01-01'', updatedAt = ''2024-01-01''\<rparr>],
          ''tags_data'' \<mapsto> ''{oops''],
        console = []\<rparr>)) =
     [\<lparr>id_n = ''a'', title = ''A'', content = ''x'', tags_n = [''t1''],
        createdAt = ''2024-01-01'', updatedAt = ''2024-01-01''\<rparr>] \<and>
   console (loadEffect (\<lambda>t. map_sum id (\<lambda>j. the (as_array as_note j)) (JSON_parse t))
      (\<lambda>t. map_sum id (\<lambda>j. the (as_array as_tag j)) (JSON_parse t)) None None
      \<lparr>app = initial_state,
        localStorage = [''notes_data'' \<mapsto> stringifyNotes
          [\<lparr>id_n = ''a'', title = ''A'', content = ''x'', tags_n = [''t1''],
            createdAt = ''2024-01-01'', updatedAt = ''2024-01-01''\<rparr>],
          ''tags_data'' \<mapsto> ''{oops''],
        console = []\<rparr>) =
     [(''Failed to load data from localStorage'', SyntaxError)]"
proof -
  have bad: "JSON_parse ''{oops'' = Inl SyntaxError"
    by (simp add: JSON_parse_def is_ws_def)
  have good: "JSON_parse (stringifyNotes ns) = Inr (JArray (map note_json ns))" for ns
    unfolding stringifyNotes_def by (rule JSON_parse_JSON_stringify)
  have ne: "stringifyNotes ns \<noteq> []" for ns
    by (simp add: stringifyNotes_def)
  show ?thesis
    by (simp add: bad good ne loadEffect_def loadTry_def getItem_def initial_state_def
        as_note_note_json)
qed

section \<open>Properties of the save effects\<close>

lemma step_isInitialized: "isInitialized (step s ev) = isInitialized s"
  by (cases ev)
    (simp_all add: handleAddNote_def handleSaveNote_def handleDeleteNote_def
      handleAddTag_def handleSelectTag_def Let_def)

lemma app_saveNotesEffect: "app (saveNotesEffect f r v) = app v"
  by (simp add: saveNotesEffect_def setItem_def split: option.splits)

lemma app_saveTagsEffect: "app (saveTagsEffect f r v) = app v"
  by (simp add: saveTagsEffect_def setItem_def split: option.splits)

lemma app_dispatch: "app (dispatch f1 f2 w ev) = step (app w) ev"
  by (simp add: dispatch_def app_saveNotesEffect app_saveTagsEffect Let_def)

lemma dispatch_uninitialized:
  "\<not> isInitialized (app w) \<Longrightarrow> localStorage (dispatch f1 f2 w ev) = localStorage w"
  by (simp add: dispatch_def saveNotesEffect_def saveTagsEffect_def step_isInitialized Let_def)

lemma dispatch_all_uninitialized:
  "\<not> isInitialized (app w) \<Longrightarrow> localStorage (dispatch_all w evs) = localStorage w"
proof (induction evs arbitrary: w)
  case Nil
  show ?case by simp
next
  case (Cons x evs)
  obtain ev f1 f2 where x: "x = (ev, f1, f2)" by (cases x)
  have "\<not> isInitialized (app (dispatch f1 f2 w ev))"
    using Cons.prems by (simp add: app_dispatch step_isInitialized)
  then have "localStorage (dispatch_all (dispatch f1 f2 w ev) evs) =
      localStorage (dispatch f1 f2 w ev)"
    by (rule Cons.IH)
  then show ?case using Cons.prems by (simp add: x dispatch_uninitialized)
qed

lemma dispatch_all_initialized:
  "isInitialized (app (dispatch_all w evs)) = isInitialized (app w)"
proof (induction evs arbitrary: w)
  case Nil
  show ?case by simp
next
  case (Cons x evs)
  obtain ev f1 f2 where x: "x = (ev, f1, f2)" by (cases x)
  show ?case using Cons.IH [of "dispatch f1 f2 w ev"]
    by (simp add: x app_dispatch step_isInitialized)
qed

text \<open>
  C7. A save effect scheduled by a render whose state is not initialized changes nothing;
  the effects of the first commit leave the store as it was and mark initialization
  complete; and whatever events are handled from a state that is not initialized, the store
  stays as it was. Once the state is initialized it stays so, the commit that follows the
  first one writes both collections, and every event that changes the notes (the tags)
  collection is followed by a write under \<open>notes_data\<close> (\<open>tags_data\<close>), when the write goes
  through. What is written is a serialization of the whole collection: a text that
  \<open>JSON.parse\<close> accepts and whose value, read at the type of the collection, is the collection
  as it is after the event. A write that throws adds the error to the console and changes
  neither the store nor the state, and the state after an event is the handler's result
  whether the writes fail or not.
\<close>

theorem save_effects_gated:
  fixes parseNotes parseTags
  shows
  "(\<not> isInitialized rendered \<longrightarrow>
      saveNotesEffect fault rendered w = w \<and> saveTagsEffect fault rendered w = w) \<and>
   localStorage (mountEffects parseNotes parseTags nread tread nwrite twrite
      (w\<lparr>app := initial_state\<rparr>)) = localStorage w \<and>
   isInitialized (app (mountEffects parseNotes parseTags nread tread nwrite twrite
      (w\<lparr>app := initial_state\<rparr>))) \<and>
   (\<not> isInitialized (app w) \<longrightarrow> localStorage (dispatch_all w evs) = localStorage w) \<and>
   (isInitialized (app w) \<longrightarrow> isInitialized (app (dispatch_all w evs))) \<and>
   (isInitialized (app w) \<and> nfault = None \<longrightarrow>
      (\<exists>text j. localStorage (initializedEffects nfault tfault w) ''notes_data'' = Some text \<and>
         JSON_parse text = Inr j \<and> as_array as_note j = Some (notes (app w)))) \<and>
   (isInitialized (app w) \<and> tfault = None \<longrightarrow>
      (\<exists>text j. localStorage (initializedEffects nfault tfault w) ''tags_data'' = Some text \<and>
         JSON_parse text = Inr j \<and> as_array as_tag j = Some (tags (app w)))) \<and>
   (isInitialized (app w) \<and> notes (step (app w) ev) \<noteq> notes (app w) \<and> nfault = None \<longrightarrow>
      (\<exists>text j. localStorage (dispatch nfault tfault w ev) ''notes_data'' = Some text \<and>
         JSON_parse text = Inr j \<and> as_array as_note j = Some (notes (step (app w) ev)))) \<and>
   (isInitialized (app w) \<and> tags (step (app w) ev) \<noteq> tags (app w) \<and> tfault = None \<longrightarrow>
      (\<exists>text j. localStorage (dispatch nfault tfault w ev) ''tags_data'' = Some text \<and>
         JSON_parse text = Inr j \<and> as_array as_tag j = Some (tags (step (app w) ev)))) \<and>
   (isInitialized rendered \<longrightarrow>
      saveNotesEffect (Some err) rendered w =
        w\<lparr>console := console w @ [(''Failed to save notes to localStorage'', err)]\<rparr> \<and>
      saveTagsEffect (Some err) rendered w =
        w\<lparr>console := console w @ [(''Failed to save tags to localStorage'', err)]\<rparr>) \<and>
   app (dispatch nfault tfault w ev) = step (app w) ev"
proof -
  have back_n: "JSON_parse (stringifyNotes xs) = Inr (JArray (map note_json xs)) \<and>
      as_array as_note (JArray (map note_json xs)) = Some xs" for xs
    by (simp add: stringifyNotes_def JSON_parse_JSON_stringify those_notes
        del: JSON_stringify.simps)
  have back_t: "JSON_parse (stringifyTags xs) = Inr (JArray (map tag_json xs)) \<and>
      as_array as_tag (JArray (map tag_json xs)) = Some xs" for xs
    by (simp add: stringifyTags_def JSON_parse_JSON_stringify those_tags
        del: JSON_stringify.simps)
  have nn: "notes (step s ev) \<noteq> notes s \<Longrightarrow> sets_notes ev" for s
    by (cases ev) (simp_all add: handleAddTag_def handleSelectTag_def Let_def)
  have tt: "tags (step s ev) \<noteq> tags s \<Longrightarrow> sets_tags ev" for s
    by (cases ev)
      (auto simp: handleAddNote_def handleSaveNote_def handleDeleteNote_def
        handleSelectTag_def Let_def split: if_splits)
  have excl: "sets_notes ev \<Longrightarrow> \<not> sets_tags ev"
    by (cases ev) simp_all
  have gate: "\<not> isInitialized rendered \<longrightarrow>
      saveNotesEffect fault rendered w = w \<and> saveTagsEffect fault rendered w = w"
    by (simp add: saveNotesEffect_def saveTagsEffect_def)
  have mount1: "localStorage (mountEffects parseNotes parseTags nread tread nwrite twrite
      (w\<lparr>app := initial_state\<rparr>)) = localStorage w"
    by (simp add: mountEffects_def saveNotesEffect_def saveTagsEffect_def loadEffect_def
        initial_state_def Let_def split: prod.splits option.splits)
  have mount2: "isInitialized (app (mountEffects parseNotes parseTags nread tread nwrite twrite
      (w\<lparr>app := initial_state\<rparr>)))"
    by (simp add: mountEffects_def saveNotesEffect_def saveTagsEffect_def loadEffect_def
        initial_state_def Let_def split: prod.splits option.splits)
  have early: "\<not> isInitialized (app w) \<longrightarrow> localStorage (dispatch_all w evs) = localStorage w"
    by (simp add: dispatch_all_uninitialized)
  have stays: "isInitialized (app w) \<longrightarrow> isInitialized (app (dispatch_all w evs))"
    by (simp add: dispatch_all_initialized)
  have flush_n0: "isInitialized (app w) \<and> nfault = None \<longrightarrow>
      localStorage (initializedEffects nfault tfault w) ''notes_data'' =
        Some (stringifyNotes (notes (app w)))"
    by (simp add: initializedEffects_def saveNotesEffect_def saveTagsEffect_def setItem_def
        split: option.splits)
  have flush_t0: "isInitialized (app w) \<and> tfault = None \<longrightarrow>
      localStorage (initializedEffects nfault tfault w) ''tags_data'' =
        Some (stringifyTags (tags (app w)))"
    by (simp add: initializedEffects_def saveNotesEffect_def saveTagsEffect_def setItem_def
        split: option.splits)
  have wr_n0: "isInitialized (app w) \<and> notes (step (app w) ev) \<noteq> notes (app w) \<and> nfault = None \<longrightarrow>
      localStorage (dispatch nfault tfault w ev) ''notes_data'' =
        Some (stringifyNotes (notes (step (app w) ev)))"
    using nn [of "app w"] excl
    by (auto simp: dispatch_def saveNotesEffect_def setItem_def step_isInitialized Let_def)
  have wr_t0: "isInitialized (app w) \<and> tags (step (app w) ev) \<noteq> tags (app w) \<and> tfault = None \<longrightarrow>
      localStorage (dispatch nfault tfault w ev) ''tags_data'' =
        Some (stringifyTags (tags (step (app w) ev)))"
    using tt [of "app w"] excl
    by (auto simp: dispatch_def saveTagsEffect_def setItem_def step_isInitialized Let_def)
  have flush_n: "isInitialized (app w) \<and> nfault = None \<longrightarrow>
      (\<exists>text j. localStorage (initializedEffects nfault tfault w) ''notes_data'' = Some text \<and>
         JSON_parse text = Inr j \<and> as_array as_note j = Some (notes (app w)))"
    using flush_n0 back_n [of "notes (app w)"] by blast
  have flush_t: "isInitialized (app w) \<and> tfault = None \<longrightarrow>
      (\<exists>text j. localStorage (initializedEffects nfault tfault w) ''tags_data'' = Some text \<and>
         JSON_parse text = Inr j \<and> as_array as_tag j = Some (tags (app w)))"
    using flush_t0 back_t [of "tags (app w)"] by blast
  have wr_n: "isInitialized (app w) \<and> notes (step (app w) ev) \<noteq> notes (app w) \<and> nfault = None \<longrightarrow>
      (\<exists>text j. localStorage (dispatch nfault tfault w ev) ''notes_data'' = Some text \<and>
         JSON_parse text = Inr j \<and> as_array as_note j = Some (notes (step (app w) ev)))"
    using wr_n0 back_n [of "notes (step (app w) ev)"] by blast
  have wr_t: "isInitialized (app w) \<and> tags (step (app w) ev) \<noteq> tags (app w) \<and> tfault = None \<longrightarrow>
      (\<exists>text j. localStorage (dispatch nfault tfault w ev) ''tags_data'' = Some text \<and>
         JSON_parse text = Inr j \<and> as_array as_tag j = Some (tags (step (app w) ev)))"
    using wr_t0 back_t [of "tags (step (app w) ev)"] by blast
  have fail: "isInitialized rendered \<longrightarrow>
      saveNotesEffect (Some err) rendered w =
        w\<lparr>console := console w @ [(''Failed to save notes to localStorage'', err)]\<rparr> \<and>
      saveTagsEffect (Some err) rendered w =
        w\<lparr>console := console w @ [(''Failed to save tags to localStorage'', err)]\<rparr>"
    by (simp add: saveNotesEffect_def saveTagsEffect_def setItem_def)
  have keep: "app (dispatch nfault tfault w ev) = step (app w) ev"
    by (rule app_dispatch)
  from gate mount1 mount2 early stays flush_n flush_t wr_n wr_t fail keep show ?thesis
    by blast
qed

theorem save_effects_gated_witness:
  "\<not> isInitialized initial_state \<and>
   saveNotesEffect None initial_state
     \<lparr>app = initial_state, localStorage = Map.empty, console = []\<rparr> =
     \<lparr>app = initial_state, localStorage = Map.empty, console = []\<rparr> \<and>
   saveTagsEffect None initial_state
     \<lparr>app = initial_state, localStorage = Map.empty, console = []\<rparr> =
     \<lparr>app = initial_state, localStorage = Map.empty, console = []\<rparr> \<and>
   localStorage (dispatch_all \<lparr>app = initial_state, localStorage = Map.empty, console = []\<rparr>
     [(AddNote ''u1'' ''2024-01-02'' ''2024-01-02'', None, None), (AddTag ''g1'' ''home'', None, None)]) ''notes_data'' = None \<and>
   isInitialized (app \<lparr>app = handleAddNote ''u0'' ''2024-01-01'' ''2024-01-01'' (initial_state\<lparr>isInitialized := True\<rparr>),
       localStorage = Map.empty, console = []\<rparr>) \<and>
   isInitialized (app (dispatch_all
     \<lparr>app = handleAddNote ''u0'' ''2024-01-01'' ''2024-01-01'' (initial_state\<lparr>isInitialized := True\<rparr>),
       localStorage = Map.empty, console = []\<rparr>
     [(AddNote ''u1'' ''2024-01-02'' ''2024-01-02'', None, None), (AddTag ''g1'' ''home'', None, None)])) \<and>
   map_option (\<lambda>text. map_sum id (as_array as_note) (JSON_parse text))
     (localStorage (initializedEffects None None
     \<lparr>app = handleAddNote ''u0'' ''2024-01-01'' ''2024-01-01'' (initial_state\<lparr>isInitialized := True\<rparr>),
       localStorage = Map.empty, console = []\<rparr>) ''notes_data'') =
     Some (Inr (Some [newNote ''u0'' ''2024-01-01'' ''2024-01-01'' None])) \<and>
   map_option (\<lambda>text. map_sum id (as_array as_tag) (JSON_parse text))
     (localStorage (initializedEffects None None
     \<lparr>app = handleAddNote ''u0'' ''2024-01-01'' ''2024-01-01'' (initial_state\<lparr>isInitialized := True\<rparr>),
       localStorage = Map.empty, console = []\<rparr>) ''tags_data'') =
     Some (Inr (Some [])) \<and>
   notes (step (app \<lparr>app = handleAddNote ''u0'' ''2024-01-01'' ''2024-01-01'' (initial_state\<lparr>isInitialized := True\<rparr>),
       localStorage = Map.empty, console = []\<rparr>)
     (AddNote ''u1'' ''2024-01-02'' ''2024-01-02'')) \<noteq>
     notes (app \<lparr>app = handleAddNote ''u0'' ''2024-01-01'' ''2024-01-01'' (initial_state\<lparr>isInitialized := True\<rparr>),
       localStorage = Map.empty, console = []\<rparr>) \<and>
   map_option (\<lambda>text. map_sum id (as_array as_note) (JSON_parse text))
     (localStorage (dispatch None None
     \<lparr>app = handleAddNote ''u0'' ''2024-01-01'' ''2024-01-01'' (initial_state\<lparr>isInitialized := True\<rparr>),
       localStorage = Map.empty, console = []\<rparr>
     (AddNote ''u1'' ''2024-01-02'' ''2024-01-02'')) ''notes_data'') =
     Some (Inr (Some [newNote ''u1'' ''2024-01-02'' ''2024-01-02'' None,
       newNote ''u0'' ''2024-01-01'' ''2024-01-01'' None])) \<and>
   tags (step (app \<lparr>app = handleAddNote ''u0'' ''2024-01-01'' ''2024-01-01'' (initial_state\<lparr>isInitialized := True\<rparr>),
       localStorage = Map.empty, console = []\<rparr>)
     (AddTag ''g1'' ''home'')) \<noteq>
     tags (app \<lparr>app = handleAddNote ''u0'' ''2024-01-01'' ''2024-01-01'' (initial_state\<lparr>isInitialized := True\<rparr>),
       localStorage = Map.empty, console = []\<rparr>) \<and>
   map_option (\<lambda>text. map_sum id (as_array as_tag) (JSON_parse text))
     (localStorage (dispatch None None
     \<lparr>app = handleAddNote ''u0'' ''2024-01-01'' ''2024-01-01'' (initial_state\<lparr>isInitialized := True\<rparr>),
       localStorage = Map.empty, console = []\<rparr>
     (AddTag ''g1'' ''home'')) ''tags_data'') =
     Some (Inr (Some [\<lparr>id_t = ''g1'', name_t = ''home''\<rparr>])) \<and>
   console (saveNotesEffect (Some QuotaExceededError)
     (app \<lparr>app = handleAddNote ''u0'' ''2024-01-01'' ''2024-01-01'' (initial_state\<lparr>isInitialized := True\<rparr>),
       localStorage = Map.empty, console = []\<rparr>)
     \<lparr>app = handleAddNote ''u0'' ''2024-01-01'' ''2024-01-01'' (initial_state\<lparr>isInitialized := True\<rparr>),
       localStorage = Map.empty, console = []\<rparr>) =
     [(''Failed to save notes to localStorage'', QuotaExceededError)] \<and>
   notes (app (dispatch (Some QuotaExceededError) None
     \<lparr>app = handleAddNote ''u0'' ''2024-01-01'' ''2024-01-01'' (initial_state\<lparr>isInitialized := True\<rparr>),
       localStorage = Map.empty, console = []\<rparr>
     (AddNote ''u1'' ''2024-01-02'' ''2024-01-02''))) =
     [newNote ''u1'' ''2024-01-02'' ''2024-01-02'' None,
      newNote ''u0'' ''2024-01-01'' ''2024-01-01'' None]"
  using
    save_effects_gated [where rendered = initial_state and fault = None
      and nfault = None and tfault = None
      and w = "\<lparr>app = initial_state, localStorage = Map.empty, console = []\<rparr>"
      and ev = "AddNote ''u1'' ''2024-01-02'' ''2024-01-02''"
      and evs = "[(AddNote ''u1'' ''2024-01-02'' ''2024-01-02'', None, None), (AddTag ''g1'' ''home'', None, None)]"]
    save_effects_gated [where rendered = "handleAddNote ''u0'' ''2024-01-01'' ''2024-01-01'' (initial_state\<lparr>isInitialized := True\<rparr>)"
      and nfault = None and tfault = None
      and w = "\<lparr>app = handleAddNote ''u0'' ''2024-01-01'' ''2024-01-01'' (initial_state\<lparr>isInitialized := True\<rparr>),
       localStorage = Map.empty, console = []\<rparr>"
      and ev = "AddNote ''u1'' ''2024-01-02'' ''2024-01-02''"
      and evs = "[(AddNote ''u1'' ''2024-01-02'' ''2024-01-02'', None, None), (AddTag ''g1'' ''home'', None, None)]"
      and err = QuotaExceededError]
    save_effects_gated [where nfault = None and tfault = None
      and w = "\<lparr>app = handleAddNote ''u0'' ''2024-01-01'' ''2024-01-01'' (initial_state\<lparr>isInitialized := True\<rparr>),
       localStorage = Map.empty, console = []\<rparr>"
      and ev = "AddTag ''g1'' ''home''"]
    save_effects_gated [where nfault = "Some QuotaExceededError" and tfault = None
      and w = "\<lparr>app = handleAddNote ''u0'' ''2024-01-01'' ''2024-01-01'' (initial_state\<lparr>isInitialized := True\<rparr>),
       localStorage = Map.empty, console = []\<rparr>"
      and ev = "AddNote ''u1'' ''2024-01-02'' ''2024-01-02''"]
  by (simp add: initial_state_def handleAddNote_def handleAddTag_def Let_def
      dispatch_def initializedEffects_def saveNotesEffect_def saveTagsEffect_def setItem_def
      stringifyNotes_def stringifyTags_def JSON_parse_JSON_stringify
      as_note_note_json as_tag_tag_json del: JSON_stringify.simps)

end
